theory Spec2Isabelle
  imports Complex_Main "HOL-Library.Word" "HOL-Library.Sublist" "HOL-Library.Signed_Division"
begin

section \<open>Go values and the standard library\<close>

text \<open>
  A Go \<open>string\<close> is a sequence of bytes, and so is an Isabelle \<open>string\<close>: text outside
  ASCII is written here as its UTF-8 bytes, as the compiler stores it. Go's \<open>int\<close> is taken
  to be 64 bits wide (the width on every 64-bit platform); where the program does arithmetic
  on it the model uses \<open>64 word\<close>, where it only compares or prints it the model uses
  \<open>int\<close>.
\<close>

type_synonym go_int = "64 word"

text \<open>Go's \<open>/\<close> on signed integers truncates towards zero.\<close>

definition int_quo :: "go_int \<Rightarrow> go_int \<Rightarrow> go_int" where
  "int_quo a b = word_of_int (sint a sdiv sint b)"

text \<open>The verb \<open>%d\<close> of package fmt: the decimal digits, with a minus sign when negative.\<close>

fun decimal :: "nat \<Rightarrow> string" where
  "decimal n =
     (if n < 10 then [''0123456789'' ! n]
      else decimal (n div 10) @ [''0123456789'' ! (n mod 10)])"

declare decimal.simps [simp del]

definition fmt_d :: "int \<Rightarrow> string" where
  "fmt_d i = (if i < 0 then CHR ''-'' # decimal (nat (- i)) else decimal (nat i))"

text \<open>\<open>strings.Split(s, sep)\<close> for a separator of one byte, as the program calls it.\<close>

fun Split :: "string \<Rightarrow> char \<Rightarrow> string list" where
  "Split [] sep = [[]]"
| "Split (c # cs) sep =
     (if c = sep then [] # Split cs sep
      else (case Split cs sep of [] \<Rightarrow> [[c]] | p # ps \<Rightarrow> (c # p) # ps))"

text \<open>
  \<open>strconv.ParseInt(s, 10, 64)\<close>: an optional sign, then one or more decimal digits; a
  syntax error and a value outside the 64-bit range both come back as an error, here
  \<open>None\<close>. \<open>strconv.Atoi\<close> is the same function on a 64-bit platform.
\<close>

definition is_digit :: "char \<Rightarrow> bool" where
  "is_digit c = (48 \<le> (of_char c :: nat) \<and> (of_char c :: nat) \<le> 57)"

definition digit_val :: "char \<Rightarrow> nat" where
  "digit_val c = of_char c - 48"

definition ParseUint :: "string \<Rightarrow> nat option" where
  "ParseUint s =
     (if s = [] then None
      else if list_all is_digit s then Some (foldl (\<lambda>n c. n * 10 + digit_val c) 0 s)
      else None)"

definition ParseInt :: "string \<Rightarrow> int option" where
  "ParseInt s =
     (case s of
        [] \<Rightarrow> None
      | c # cs \<Rightarrow>
          (let neg = (c = CHR ''-'');
               body = (if c = CHR ''+'' then cs else if c = CHR ''-'' then cs else s)
           in case ParseUint body of
                None \<Rightarrow> None
              | Some un \<Rightarrow>
                  if neg then (if un > 2 ^ 63 then None else Some (- int un))
                  else (if un \<ge> 2 ^ 63 then None else Some (int un))))"

definition Atoi :: "string \<Rightarrow> int option" where
  "Atoi s = ParseInt s"

text \<open>\<open>strings.Contains(s, substr)\<close>: \<open>substr\<close> occurs in \<open>s\<close> as a run of bytes.\<close>

fun Contains :: "string \<Rightarrow> string \<Rightarrow> bool" where
  "Contains [] substr = (substr = [])"
| "Contains (c # cs) substr = (if prefix substr (c # cs) then True else Contains cs substr)"

text \<open>
  The library functions whose result depends on Unicode tables, on the time zone database
  or on floating point are parameters of the model: every general theorem below holds for
  whatever they compute. An instant (\<open>time.Time\<close>) is its number of nanoseconds since the
  Unix epoch.
  \<^item> \<open>strings_ToLower\<close>, \<open>strings_TrimSpace\<close>, \<open>strings_Title\<close>: the functions of package
    strings;
  \<^item> \<open>time_Parse layout value\<close>: \<open>time.Parse\<close>, \<open>None\<close> for an error;
  \<^item> \<open>local_HHMM t\<close>: \<open>t.In(stockholmTZ).Format("15:04")\<close>;
  \<^item> \<open>whole_Minutes d\<close>: \<open>int(d.Minutes())\<close> for a \<open>time.Duration\<close> of \<open>d\<close> nanoseconds
    (the minutes as a float64, converted back to an integer).
\<close>

type_synonym Time = int

record golib =
  strings_ToLower :: "string \<Rightarrow> string"
  strings_TrimSpace :: "string \<Rightarrow> string"
  strings_Title :: "string \<Rightarrow> string"
  time_Parse :: "string \<Rightarrow> string \<Rightarrow> Time option"
  local_HHMM :: "Time \<Rightarrow> string"
  whole_Minutes :: "int \<Rightarrow> int"

section \<open>Package sl: the legacy substring matcher\<close>

record Site =
  site_Name :: string
  site_SiteID :: int
  site_Type :: string

text \<open>
  The loop of \<open>FuzzyMatch\<close> over \<open>sites\<close>, with the slice \<open>matches\<close> built so far: a
  matching site is appended first, and only then is the length compared with \<open>count\<close>.
\<close>

fun FuzzyMatch_loop :: "golib \<Rightarrow> string \<Rightarrow> int \<Rightarrow> Site list \<Rightarrow> Site list \<Rightarrow> Site list" where
  "FuzzyMatch_loop L query count [] matches = matches"
| "FuzzyMatch_loop L query count (site # sites) matches =
     (if Contains (strings_ToLower L (site_Name site)) query
      then (if int (length (matches @ [site])) \<ge> count then matches @ [site]
            else FuzzyMatch_loop L query count sites (matches @ [site]))
      else FuzzyMatch_loop L query count sites matches)"

definition FuzzyMatch :: "golib \<Rightarrow> string \<Rightarrow> Site list \<Rightarrow> int \<Rightarrow> Site list" where
  "FuzzyMatch L query sites count = FuzzyMatch_loop L (strings_ToLower L query) count sites []"

section \<open>Package journeyplanner: the data of a trip\<close>

text \<open>
  The structs of \<open>trips.go\<close> and \<open>stop_finder.go\<close>, field by field; the coordinates
  (\<open>[]float64\<close>) and the \<open>Parent\<close> of a \<open>LegPoint\<close> are left out, no function below
  reads them.
\<close>

record Product =
  prod_ID :: go_int
  prod_Class :: go_int
  prod_Name :: string

record Ref =
  ref_ID :: string
  ref_Name :: string
  ref_Type :: string

record Transportation =
  tr_Name :: string
  tr_Number :: string
  tr_DisassembledName :: string
  tr_Product :: Product
  tr_Destination :: "Ref option"

record LegPoint =
  lp_ID :: string
  lp_Name :: string
  lp_Type :: string
  DepartureTimePlanned :: string
  DepartureTimeEstimated :: string
  ArrivalTimePlanned :: string
  ArrivalTimeEstimated :: string

record Leg =
  leg_Duration :: go_int
  leg_Origin :: LegPoint
  leg_Destination :: LegPoint
  leg_Transportation :: "Transportation option"
  leg_RealtimeStatus :: "string list"
  leg_IsRealtimeControlled :: bool
  leg_Type :: string

record Journey =
  TripID :: string
  TripDuration :: go_int
  TripRtDuration :: go_int
  Interchanges :: go_int
  Legs :: "Leg list"

record Location =
  loc_ID :: string
  loc_IsGlobalID :: bool
  loc_Name :: string
  loc_Type :: string
  loc_MatchQuality :: go_int
  loc_IsBest :: bool

section \<open>Package journeyplanner: the itinerary formatter\<close>

text \<open>The pieces of text of \<open>format.go\<close> that are not ASCII, as their UTF-8 bytes.\<close>

definition nl :: string where
  "nl = [CHR 0x0A]"

definition arrow :: string where
  "arrow = [CHR 0xE2, CHR 0x86, CHR 0x92]"

definition warning_sign :: string where
  "warning_sign = [CHR 0xE2, CHR 0x9A, CHR 0xA0, CHR 0xEF, CHR 0xB8, CHR 0x8F]"

definition icon_walk :: string where
  "icon_walk = [CHR 0xF0, CHR 0x9F, CHR 0x9A, CHR 0xB6]"

definition icon_bus :: string where
  "icon_bus = [CHR 0xF0, CHR 0x9F, CHR 0x9A, CHR 0x8C]"

definition icon_metro :: string where
  "icon_metro = [CHR 0xF0, CHR 0x9F, CHR 0x9A, CHR 0x87]"

definition icon_tram :: string where
  "icon_tram = [CHR 0xF0, CHR 0x9F, CHR 0x9A, CHR 0x8A]"

definition icon_train :: string where
  "icon_train = [CHR 0xF0, CHR 0x9F, CHR 0x9A, CHR 0x86]"

definition separator_line :: string where
  "separator_line = concat (replicate 22 [CHR 0xE2, CHR 0x94, CHR 0x81]) @ nl"

definition RFC3339 :: string where
  "RFC3339 = ''2006-01-02T15:04:05Z07:00''"

definition RFC3339Nano :: string where
  "RFC3339Nano = ''2006-01-02T15:04:05.999999999Z07:00''"

text \<open>
  \<open>t.Sub(u)\<close>: the difference in nanoseconds as a \<open>time.Duration\<close>, which saturates at the
  ends of the 64-bit range.
\<close>

definition Sub :: "Time \<Rightarrow> Time \<Rightarrow> int" where
  "Sub t u = max (- (2 ^ 63)) (min (2 ^ 63 - 1) (t - u))"

definition parseRFC3339ToLocal :: "golib \<Rightarrow> string \<Rightarrow> Time option" where
  "parseRFC3339ToLocal L timeStr =
     (if timeStr = [] then None
      else (case time_Parse L RFC3339 timeStr of
              Some t \<Rightarrow> Some t
            | None \<Rightarrow> (case time_Parse L RFC3339Nano timeStr of
                          Some t \<Rightarrow> Some t
                        | None \<Rightarrow> None)))"

definition parseAndConvertToLocal :: "golib \<Rightarrow> string \<Rightarrow> string" where
  "parseAndConvertToLocal L timeStr =
     (if timeStr = [] then []
      else (case time_Parse L RFC3339 timeStr of
              Some t \<Rightarrow> local_HHMM L t
            | None \<Rightarrow> (case time_Parse L RFC3339Nano timeStr of
                          Some t \<Rightarrow> local_HHMM L t
                        | None \<Rightarrow> timeStr)))"

definition depart_on_time :: "string \<Rightarrow> string" where
  "depart_on_time t = ''  Depart: '' @ t @ '' (on time)'' @ nl"

definition depart_late :: "string \<Rightarrow> string \<Rightarrow> int \<Rightarrow> string" where
  "depart_late p e n =
     ''  Depart: '' @ p @ '' '' @ arrow @ '' '' @ warning_sign @ '' '' @ e
       @ '' (+'' @ fmt_d n @ '' min)'' @ nl"

definition depart_early :: "string \<Rightarrow> string \<Rightarrow> int \<Rightarrow> string" where
  "depart_early p e n =
     ''  Depart: '' @ p @ '' '' @ arrow @ '' '' @ e @ '' ('' @ fmt_d n @ '' min early)'' @ nl"

definition depart_fallback :: "string \<Rightarrow> string \<Rightarrow> string" where
  "depart_fallback p e =
     ''  Depart: '' @ p @ '' '' @ arrow @ '' '' @ warning_sign @ '' '' @ e @ nl"

definition formatDepartureCompact :: "golib \<Rightarrow> string \<Rightarrow> string \<Rightarrow> string" where
  "formatDepartureCompact L planned estimated =
     (let plannedTime = parseAndConvertToLocal L planned;
          estimatedTime0 = parseAndConvertToLocal L estimated
      in if plannedTime = [] \<and> estimatedTime0 = [] then []
         else
           (let estimatedTime = (if estimatedTime0 = [] then plannedTime else estimatedTime0)
            in if plannedTime = estimatedTime \<or> plannedTime = [] then depart_on_time estimatedTime
               else
                 (case (parseRFC3339ToLocal L planned, parseRFC3339ToLocal L estimated) of
                    (Some plannedT, Some estimatedT) \<Rightarrow>
                      (let deltaMin = whole_Minutes L (Sub estimatedT plannedT)
                       in if deltaMin > 0 then depart_late plannedTime estimatedTime deltaMin
                          else if deltaMin < 0 then depart_early plannedTime estimatedTime deltaMin
                          else depart_fallback plannedTime estimatedTime)
                  | _ \<Rightarrow> depart_fallback plannedTime estimatedTime)))"

definition formatName :: "string \<Rightarrow> string" where
  "formatName name = (if name = [] then ''(unknown)'' else name)"

text \<open>The expression \<open>(duration + 59) / 60\<close> of the journey header and of a walking leg.\<close>

definition durationMin :: "go_int \<Rightarrow> go_int" where
  "durationMin duration = int_quo (duration + 59) 60"

text \<open>
  \<open>formatLeg\<close>. The four motorised cases of the switch each read \<open>line\<close> and \<open>direction\<close>
  from the transportation in the same way and end with the same departure line and the
  same line of names; the model computes these once.
\<close>

definition leg_names :: "Leg \<Rightarrow> string" where
  "leg_names leg =
     ''  '' @ formatName (lp_Name (leg_Origin leg)) @ '' '' @ arrow @ '' ''
       @ formatName (lp_Name (leg_Destination leg)) @ nl"

definition line_header :: "string \<Rightarrow> string \<Rightarrow> string \<Rightarrow> string" where
  "line_header icon line direction =
     (if direction \<noteq> [] then icon @ '' '' @ line @ '' '' @ arrow @ '' '' @ direction @ nl
      else icon @ '' '' @ line @ nl)"

definition other_header :: "string \<Rightarrow> string \<Rightarrow> string \<Rightarrow> string" where
  "other_header methodName line direction =
     (if direction \<noteq> [] \<and> line \<noteq> []
      then icon_train @ '' '' @ methodName @ '' '' @ line @ '' '' @ arrow @ '' '' @ direction @ nl
      else if line \<noteq> [] then icon_train @ '' '' @ methodName @ '' '' @ line @ nl
      else icon_train @ '' '' @ methodName @ nl)"

definition leg_productName :: "golib \<Rightarrow> Leg \<Rightarrow> string" where
  "leg_productName L leg =
     (case leg_Transportation leg of
        None \<Rightarrow> []
      | Some t \<Rightarrow> strings_ToLower L (strings_TrimSpace L (prod_Name (tr_Product t))))"

definition formatLeg :: "golib \<Rightarrow> Leg \<Rightarrow> string" where
  "formatLeg L leg =
     (let productName = leg_productName L leg;
          line = (case leg_Transportation leg of None \<Rightarrow> [] | Some t \<Rightarrow> tr_Number t);
          direction =
            (case leg_Transportation leg of
               None \<Rightarrow> []
             | Some t \<Rightarrow> (case tr_Destination t of None \<Rightarrow> [] | Some d \<Rightarrow> ref_Name d));
          depart = formatDepartureCompact L (DepartureTimePlanned (leg_Origin leg))
                     (DepartureTimeEstimated (leg_Origin leg))
      in if productName = ''footpath'' \<or> productName = []
         then icon_walk @ '' Walk '' @ fmt_d (sint (durationMin (leg_Duration leg))) @ '' min'' @ nl
                @ leg_names leg
         else if productName = ''bus'' then line_header icon_bus line direction @ depart @ leg_names leg
         else if productName = ''metro'' then line_header icon_metro line direction @ depart @ leg_names leg
         else if productName = ''tram'' then line_header icon_tram line direction @ depart @ leg_names leg
         else
           (let methodName0 = strings_Title L productName;
                methodName = (if methodName0 = [] then ''Transit'' else methodName0)
            in other_header methodName line direction @ depart @ leg_names leg))"

text \<open>\<open>getJourneyArrivalTime\<close> scans the legs from the last one backwards.\<close>

fun arrival_scan :: "golib \<Rightarrow> Leg list \<Rightarrow> string" where
  "arrival_scan L [] = []"
| "arrival_scan L (leg # legs) =
     (if ArrivalTimeEstimated (leg_Destination leg) \<noteq> []
      then parseAndConvertToLocal L (ArrivalTimeEstimated (leg_Destination leg))
      else if ArrivalTimePlanned (leg_Destination leg) \<noteq> []
      then parseAndConvertToLocal L (ArrivalTimePlanned (leg_Destination leg))
      else arrival_scan L legs)"

definition getJourneyArrivalTime :: "golib \<Rightarrow> Journey \<Rightarrow> string" where
  "getJourneyArrivalTime L j = arrival_scan L (rev (Legs j))"

text \<open>
  The body of the loop of \<open>FormatJourneys\<close> for the journey \<open>j\<close> at index \<open>i\<close>: what one
  iteration writes to the builder.
\<close>

definition option_block :: "golib \<Rightarrow> nat \<Rightarrow> Journey \<Rightarrow> string" where
  "option_block L i j =
     (let duration = (if TripRtDuration j = 0 then TripDuration j else TripRtDuration j);
          arrivalTime = getJourneyArrivalTime L j
      in separator_line
         @ (if arrivalTime \<noteq> []
            then ''Option '' @ fmt_d (int i + 1) @ '' ('' @ fmt_d (sint (durationMin duration))
                   @ '' min, arrives '' @ arrivalTime @ '')'' @ nl @ nl
            else ''Option '' @ fmt_d (int i + 1) @ '' ('' @ fmt_d (sint (durationMin duration))
                   @ '' min)'' @ nl @ nl)
         @ concat (map (\<lambda>leg. formatLeg L leg @ nl) (Legs j))
         @ nl)"

text \<open>The loop \<open>for i := 0; i < count; i++\<close>, with the builder \<open>b\<close> as accumulator.\<close>

function FormatJourneys_loop :: "golib \<Rightarrow> Journey list \<Rightarrow> nat \<Rightarrow> nat \<Rightarrow> string \<Rightarrow> string" where
  "FormatJourneys_loop L journeys count i b =
     (if i < count
      then FormatJourneys_loop L journeys count (i + 1) (b @ option_block L i (journeys ! i))
      else b)"
  by pat_completeness auto
termination
  by (relation "measure (\<lambda>(L, journeys, count, i, b). count - i)") auto

declare FormatJourneys_loop.simps [simp del]

definition FormatJourneys :: "golib \<Rightarrow> string \<Rightarrow> string \<Rightarrow> Journey list \<Rightarrow> int \<Rightarrow> string" where
  "FormatJourneys L originLabel destinationLabel journeys count =
     (let count1 = (if count \<le> 0 then 3 else count);
          count2 = (if int (length journeys) < count1 then int (length journeys) else count1)
      in if count2 = 0 then ''No journeys found.''
         else strings_TrimSpace L (FormatJourneys_loop L journeys (nat count2) 0 []))"

section \<open>Package journeyplanner: the location search\<close>

text \<open>
  \<open>StopFinder\<close> asks the backend over HTTP. What comes back (the error of the request or
  of the decoding, or the \<open>Locations\<close> of the decoded response) is the parameter
  \<open>response\<close>; the function's own part is the dry-run switch and the cut to \<open>limit\<close>.
\<close>

type_synonym go_error = string

record Client =
  dryRun :: bool

definition dry_location :: "string \<Rightarrow> string \<Rightarrow> string \<Rightarrow> bool \<Rightarrow> Location" where
  "dry_location i n t best =
     \<lparr>loc_ID = i, loc_IsGlobalID = False, loc_Name = n, loc_Type = t, loc_MatchQuality = 0,
      loc_IsBest = best\<rparr>"

definition limit_locs :: "int \<Rightarrow> Location list \<Rightarrow> Location list" where
  "limit_locs limit locs =
     (if limit > 0 \<and> int (length locs) > limit then take (nat limit) locs else locs)"

definition dryRunStopFinder :: "string \<Rightarrow> int \<Rightarrow> Location list" where
  "dryRunStopFinder query limit =
     limit_locs limit
       [dry_location ''dry:home'' ''Storgatan'' ''address'' True,
        dry_location ''dry:work''
          (''Fr'' @ [CHR 0xC3, CHR 0x83, CHR 0xC2, CHR 0xB6] @ ''sunda torg'') ''stop'' False,
        dry_location ''dry:alt'' ''Odenplan'' ''stop'' False]"

definition StopFinder ::
  "Client \<Rightarrow> string \<Rightarrow> int \<Rightarrow> go_error + Location list \<Rightarrow> go_error + Location list" where
  "StopFinder c query limit response =
     (if dryRun c then Inr (dryRunStopFinder query limit)
      else (case response of
              Inl err \<Rightarrow> Inl err
            | Inr locs \<Rightarrow> Inr (limit_locs limit locs)))"

section \<open>Package store: the preference store\<close>

text \<open>
  The store keeps the preferences in memory and rewrites its JSON file after every change.
  The answer of the file system to that rewrite is the parameter \<open>disk\<close>: \<open>None\<close> when
  the directory and the file could be written, the error otherwise. A setter changes the
  map in memory before it saves, so the change stays in memory when saving fails.
\<close>

record UserPreferences =
  HomeLocation :: string
  WorkLocation :: string
  RoutePriority :: string

record UserStore =
  us_prefs :: "int \<rightharpoonup> UserPreferences"
  us_file :: string

definition no_preferences :: UserPreferences where
  "no_preferences = \<lparr>HomeLocation = [], WorkLocation = [], RoutePriority = []\<rparr>"

definition GetPrefs :: "UserStore \<Rightarrow> int \<Rightarrow> UserPreferences" where
  "GetPrefs s userID = (case us_prefs s userID of Some p \<Rightarrow> p | None \<Rightarrow> no_preferences)"

definition saveToFile :: "UserStore \<Rightarrow> go_error option \<Rightarrow> go_error option" where
  "saveToFile s disk = (if us_file s = [] then None else disk)"

definition SetHome :: "UserStore \<Rightarrow> int \<Rightarrow> string \<Rightarrow> go_error option \<Rightarrow> UserStore \<times> go_error option" where
  "SetHome s userID location disk =
     (let s' = s\<lparr>us_prefs := (us_prefs s)(userID \<mapsto> (GetPrefs s userID)\<lparr>HomeLocation := location\<rparr>)\<rparr>
      in (s', saveToFile s' disk))"

definition SetWork :: "UserStore \<Rightarrow> int \<Rightarrow> string \<Rightarrow> go_error option \<Rightarrow> UserStore \<times> go_error option" where
  "SetWork s userID location disk =
     (let s' = s\<lparr>us_prefs := (us_prefs s)(userID \<mapsto> (GetPrefs s userID)\<lparr>WorkLocation := location\<rparr>)\<rparr>
      in (s', saveToFile s' disk))"

definition SetPriority :: "UserStore \<Rightarrow> int \<Rightarrow> string \<Rightarrow> go_error option \<Rightarrow> UserStore \<times> go_error option" where
  "SetPriority s userID priority disk =
     (let s' = s\<lparr>us_prefs := (us_prefs s)(userID \<mapsto> (GetPrefs s userID)\<lparr>RoutePriority := priority\<rparr>)\<rparr>
      in (s', saveToFile s' disk))"

section \<open>Package bot: the selection of a home or work location\<close>

text \<open>
  The handler's state is the preference store and the two maps of pending selections; a
  call returns the new state and what it sent to the chat, in order. Lines written to the
  log are not part of the model. \<open>SendMessage\<close> is the helper \<open>sendMessage\<close> (a plain
  message), \<open>SendPrompt\<close> a message with one inline button (label, callback data) per row,
  \<open>EditMessageText\<close> the edit of an earlier message. A send that fails is only logged by
  the program, so the model records the attempt.
\<close>

datatype event =
  SendMessage int string
| SendPrompt int string "(string \<times> string) list"
| EditMessageText int int string

record Handler =
  jpClient :: Client
  homeSiteID :: string
  workSiteID :: string
  userStore :: UserStore
  pendingHome :: "int \<rightharpoonup> Location list"
  pendingWork :: "int \<rightharpoonup> Location list"

record CallbackQuery =
  cb_Data :: string
  cb_ChatID :: int
  cb_MessageID :: int

definition cross_mark :: string where
  "cross_mark = [CHR 0xE2, CHR 0x9D, CHR 0x8C]"

definition check_mark :: string where
  "check_mark = [CHR 0xE2, CHR 0x9C, CHR 0x85]"

definition question_mark :: string where
  "question_mark = [CHR 0xE2, CHR 0x9D, CHR 0x93]"

definition bullet :: string where
  "bullet = [CHR 0xE2, CHR 0x80, CHR 0xA2]"

definition msg_not_found :: string where
  "msg_not_found = cross_mark @ '' Location not found in pending selections.''"

definition msg_save_failed :: string where
  "msg_save_failed = cross_mark @ '' Error saving preference.''"

definition msg_save_failed_later :: string where
  "msg_save_failed_later = cross_mark @ '' Error saving preference. Try again later.''"

definition msg_search_failed :: string where
  "msg_search_failed = cross_mark @ '' Error searching locations. Try again later.''"

definition msg_no_locations :: "string \<Rightarrow> string" where
  "msg_no_locations query = cross_mark @ '' No locations found matching '' @ [CHR 0x27] @ query @ [CHR 0x27]"

definition msg_multiple :: "string \<Rightarrow> string" where
  "msg_multiple query = ''Multiple matches for '' @ [CHR 0x27] @ query @ [CHR 0x27] @ ''. Which one?''"

definition msg_home_set :: "string \<Rightarrow> string" where
  "msg_home_set name = check_mark @ '' Home set to: '' @ name"

definition msg_work_set :: "string \<Rightarrow> string" where
  "msg_work_set name = check_mark @ '' Work set to: '' @ name"

definition msg_usage_sethome :: string where
  "msg_usage_sethome =
     question_mark @ '' Usage: /sethome <location>'' @ nl @ nl @ ''Examples:'' @ nl
       @ bullet @ '' /sethome Odenplan'' @ nl
       @ bullet @ '' /sethome Drottninggatan 1, Stockholm''"

definition msg_usage_setwork :: string where
  "msg_usage_setwork =
     question_mark @ '' Usage: /setwork <location>'' @ nl @ nl @ ''Examples:'' @ nl
       @ bullet @ '' /setwork Slussen'' @ nl
       @ bullet @ '' /setwork Kungsgatan 10, Stockholm''"

text \<open>The buttons of a prompt: the callback data of the button at position \<open>i\<close> is
  \<open><role>_<userID>_<i>\<close>.\<close>

definition location_button :: "string \<Rightarrow> int \<Rightarrow> nat \<Rightarrow> Location \<Rightarrow> string \<times> string" where
  "location_button role userID i loc =
     (loc_Name loc @ '' ('' @ loc_Type loc @ '')'',
      role @ ''_'' @ fmt_d userID @ ''_'' @ fmt_d (int i))"

definition location_buttons :: "string \<Rightarrow> int \<Rightarrow> Location list \<Rightarrow> (string \<times> string) list" where
  "location_buttons role userID locs =
     map (\<lambda>(i, loc). location_button role userID i loc) (enumerate 0 locs)"

definition handleSetHome ::
  "Handler \<Rightarrow> int \<Rightarrow> int \<Rightarrow> string \<Rightarrow> go_error + Location list \<Rightarrow> go_error option
     \<Rightarrow> Handler \<times> event list" where
  "handleSetHome h chatID userID query response disk =
     (if query = [] then (h, [SendMessage chatID msg_usage_sethome])
      else
        (case StopFinder (jpClient h) query 5 response of
           Inl err \<Rightarrow> (h, [SendMessage chatID msg_search_failed])
         | Inr locs \<Rightarrow>
             if length locs = 0 then (h, [SendMessage chatID (msg_no_locations query)])
             else if length locs = 1 then
               (let selected = locs ! 0;
                    saved = SetHome (userStore h) userID (loc_ID selected) disk
                in case snd saved of
                     Some err \<Rightarrow>
                       (h\<lparr>userStore := fst saved\<rparr>, [SendMessage chatID msg_save_failed_later])
                   | None \<Rightarrow>
                       (h\<lparr>userStore := fst saved\<rparr>,
                        [SendMessage chatID (msg_home_set (loc_Name selected))]))
             else
               (h\<lparr>pendingHome := (pendingHome h)(userID \<mapsto> locs)\<rparr>,
                [SendPrompt chatID (msg_multiple query) (location_buttons ''homejp'' userID locs)])))"

definition handleSetWork ::
  "Handler \<Rightarrow> int \<Rightarrow> int \<Rightarrow> string \<Rightarrow> go_error + Location list \<Rightarrow> go_error option
     \<Rightarrow> Handler \<times> event list" where
  "handleSetWork h chatID userID query response disk =
     (if query = [] then (h, [SendMessage chatID msg_usage_setwork])
      else
        (case StopFinder (jpClient h) query 5 response of
           Inl err \<Rightarrow> (h, [SendMessage chatID msg_search_failed])
         | Inr locs \<Rightarrow>
             if length locs = 0 then (h, [SendMessage chatID (msg_no_locations query)])
             else if length locs = 1 then
               (let selected = locs ! 0;
                    saved = SetWork (userStore h) userID (loc_ID selected) disk
                in case snd saved of
                     Some err \<Rightarrow>
                       (h\<lparr>userStore := fst saved\<rparr>, [SendMessage chatID msg_save_failed_later])
                   | None \<Rightarrow>
                       (h\<lparr>userStore := fst saved\<rparr>,
                        [SendMessage chatID (msg_work_set (loc_Name selected))]))
             else
               (h\<lparr>pendingWork := (pendingWork h)(userID \<mapsto> locs)\<rparr>,
                [SendPrompt chatID (msg_multiple query) (location_buttons ''workjp'' userID locs)])))"

text \<open>
  \<open>HandleCallback\<close>. Reading a Go map at a key it does not hold gives the nil slice, of
  length 0 (\<open>pending_at\<close>). The three branches, for a priority, a home and a work
  selection, are the three blocks of the function; any other action is only logged.
\<close>

definition pending_at :: "(int \<rightharpoonup> Location list) \<Rightarrow> int \<Rightarrow> Location list" where
  "pending_at m userID = (case m userID of None \<Rightarrow> [] | Some locs \<Rightarrow> locs)"

definition priority_label :: "string \<Rightarrow> string" where
  "priority_label priorityValue =
     (if priorityValue = ''leasttime'' then ''Fastest''
      else if priorityValue = ''leastinterchange'' then ''Least transfers''
      else if priorityValue = ''leastwalking'' then ''Least walking''
      else [])"

definition callback_priority ::
  "Handler \<Rightarrow> CallbackQuery \<Rightarrow> int \<Rightarrow> string \<Rightarrow> go_error option \<Rightarrow> Handler \<times> event list" where
  "callback_priority h callback userID priorityValue disk =
     (let saved = SetPriority (userStore h) userID priorityValue disk
      in case snd saved of
           Some err \<Rightarrow>
             (h\<lparr>userStore := fst saved\<rparr>, [SendMessage (cb_ChatID callback) msg_save_failed])
         | None \<Rightarrow>
             (h\<lparr>userStore := fst saved\<rparr>,
              [EditMessageText (cb_ChatID callback) (cb_MessageID callback)
                 (check_mark @ '' Route priority set to: '' @ priority_label priorityValue)]))"

definition callback_home ::
  "Handler \<Rightarrow> CallbackQuery \<Rightarrow> int \<Rightarrow> int \<Rightarrow> go_error option \<Rightarrow> Handler \<times> event list" where
  "callback_home h callback userID selectionIndex disk =
     (let matches = pending_at (pendingHome h) userID
      in if selectionIndex < 0 \<or> selectionIndex \<ge> int (length matches)
         then (h, [SendMessage (cb_ChatID callback) msg_not_found])
         else
           (let selected = matches ! nat selectionIndex;
                saved = SetHome (userStore h) userID (loc_ID selected) disk
            in case snd saved of
                 Some err \<Rightarrow>
                   (h\<lparr>userStore := fst saved\<rparr>, [SendMessage (cb_ChatID callback) msg_save_failed])
               | None \<Rightarrow>
                   (h\<lparr>userStore := fst saved, pendingHome := (pendingHome h)(userID := None)\<rparr>,
                    [EditMessageText (cb_ChatID callback) (cb_MessageID callback)
                       (msg_home_set (loc_Name selected))])))"

definition callback_work ::
  "Handler \<Rightarrow> CallbackQuery \<Rightarrow> int \<Rightarrow> int \<Rightarrow> go_error option \<Rightarrow> Handler \<times> event list" where
  "callback_work h callback userID selectionIndex disk =
     (let matches = pending_at (pendingWork h) userID
      in if selectionIndex < 0 \<or> selectionIndex \<ge> int (length matches)
         then (h, [SendMessage (cb_ChatID callback) msg_not_found])
         else
           (let selected = matches ! nat selectionIndex;
                saved = SetWork (userStore h) userID (loc_ID selected) disk
            in case snd saved of
                 Some err \<Rightarrow>
                   (h\<lparr>userStore := fst saved\<rparr>, [SendMessage (cb_ChatID callback) msg_save_failed])
               | None \<Rightarrow>
                   (h\<lparr>userStore := fst saved, pendingWork := (pendingWork h)(userID := None)\<rparr>,
                    [EditMessageText (cb_ChatID callback) (cb_MessageID callback)
                       (msg_work_set (loc_Name selected))])))"

definition HandleCallback ::
  "Handler \<Rightarrow> CallbackQuery \<Rightarrow> go_error option \<Rightarrow> Handler \<times> event list" where
  "HandleCallback h callback disk =
     (case Split (cb_Data callback) CHR ''_'' of
        [action, userField, lastField] \<Rightarrow>
          (case ParseInt userField of
             None \<Rightarrow> (h, [])
           | Some userID \<Rightarrow>
               if action = ''priority'' then callback_priority h callback userID lastField disk
               else
                 (case Atoi lastField of
                    None \<Rightarrow> (h, [])
                  | Some selectionIndex \<Rightarrow>
                      if action = ''homejp'' then callback_home h callback userID selectionIndex disk
                      else if action = ''workjp'' then callback_work h callback userID selectionIndex disk
                      else (h, [])))
      | _ \<Rightarrow> (h, []))"

section \<open>A reference instance of the library\<close>

text \<open>
  To run the model on concrete inputs the library parameters need values. \<open>cet_lib\<close> is
  what Go computes on ASCII text and on RFC 3339 timestamps while \<open>stockholmTZ\<close> stands at
  UTC+1 (Europe/Stockholm outside summer time), for durations short enough that their minutes
  are exact in a float64 (below \<open>2 ^ 18\<close> minutes). It is used only in the closed theorems
  that evaluate the program.
\<close>

definition ascii_lower :: "char \<Rightarrow> char" where
  "ascii_lower c =
     (case map_of (zip ''ABCDEFGHIJKLMNOPQRSTUVWXYZ'' ''abcdefghijklmnopqrstuvwxyz'') c of
        Some l \<Rightarrow> l
      | None \<Rightarrow> c)"

definition ascii_upper :: "char \<Rightarrow> char" where
  "ascii_upper c =
     (case map_of (zip ''abcdefghijklmnopqrstuvwxyz'' ''ABCDEFGHIJKLMNOPQRSTUVWXYZ'') c of
        Some u \<Rightarrow> u
      | None \<Rightarrow> c)"

definition ascii_space :: "char \<Rightarrow> bool" where
  "ascii_space c = ((of_char c :: nat) \<in> {9, 10, 11, 12, 13, 32})"

definition ascii_letter_or_digit :: "char \<Rightarrow> bool" where
  "ascii_letter_or_digit c =
     (let n = (of_char c :: nat)
      in (48 \<le> n \<and> n \<le> 57) \<or> (65 \<le> n \<and> n \<le> 90) \<or> (97 \<le> n \<and> n \<le> 122) \<or> n = 95)"

fun title_from :: "bool \<Rightarrow> string \<Rightarrow> string" where
  "title_from after_separator [] = []"
| "title_from after_separator (c # cs) =
     (if after_separator then ascii_upper c else c)
       # title_from (if ascii_letter_or_digit c then False else True) cs"

definition is_leap :: "nat \<Rightarrow> bool" where
  "is_leap y = (if y mod 4 = 0 then (if y mod 100 = 0 then y mod 400 = 0 else True) else False)"

definition daysIn :: "nat \<Rightarrow> nat \<Rightarrow> nat" where
  "daysIn m y =
     (if m = 2 then (if is_leap y then 29 else 28)
      else if m \<in> {4, 6, 9, 11} then 30 else 31)"

text \<open>Days from 1970-01-01 to the given day of the proleptic Gregorian calendar.\<close>

definition days_from_civil :: "nat \<Rightarrow> nat \<Rightarrow> nat \<Rightarrow> int" where
  "days_from_civil y m d =
     (let y' = (if m \<le> 2 then int y - 1 else int y);
          era = y' div 400;
          yoe = y' - era * 400;
          mp = (if m > 2 then int m - 3 else int m + 9);
          doy = (153 * mp + 2) div 5 + int d - 1;
          doe = yoe * 365 + yoe div 4 - yoe div 100 + doy
      in era * 146097 + doe - 719468)"

definition parse_range :: "string \<Rightarrow> nat \<Rightarrow> nat \<Rightarrow> nat option" where
  "parse_range s lo hi =
     (if list_all is_digit s
      then (let x = foldl (\<lambda>n c. n * 10 + digit_val c) 0 s
            in if x < lo \<or> hi < x then None else Some x)
      else None)"

text \<open>The fractional second: a dot and digits, of which the first nine count.\<close>

definition fraction_digits :: "string \<Rightarrow> string" where
  "fraction_digits s =
     (case s of
        [] \<Rightarrow> []
      | c # cs \<Rightarrow> if c = CHR ''.'' \<and> cs \<noteq> [] \<and> is_digit (hd cs) then takeWhile is_digit cs else [])"

definition fraction_nsec :: "string \<Rightarrow> nat" where
  "fraction_nsec ds =
     (let ds9 = take 9 ds
      in foldl (\<lambda>n c. n * 10 + digit_val c) 0 ds9 * 10 ^ (9 - length ds9))"

definition zone_offset :: "string \<Rightarrow> int option" where
  "zone_offset z =
     (if z = ''Z'' then Some 0
      else if length z \<noteq> 6 then None
      else (case parse_range (take 2 (drop 1 z)) 0 23 of
              None \<Rightarrow> None
            | Some hr \<Rightarrow>
                (case parse_range (take 2 (drop 4 z)) 0 59 of
                   None \<Rightarrow> None
                 | Some mm \<Rightarrow>
                     if z ! 3 = CHR '':'' \<and> z ! 0 = CHR ''+'' then Some (int ((hr * 60 + mm) * 60))
                     else if z ! 3 = CHR '':'' \<and> z ! 0 = CHR ''-'' then Some (- int ((hr * 60 + mm) * 60))
                     else None)))"

definition rfc3339_Parse :: "string \<Rightarrow> Time option" where
  "rfc3339_Parse s =
     (if length s < 19 then None
      else if s ! 4 = CHR ''-'' \<and> s ! 7 = CHR ''-'' \<and> s ! 10 = CHR ''T'' \<and> s ! 13 = CHR '':''
              \<and> s ! 16 = CHR '':''
      then
        (case parse_range (take 4 s) 0 9999 of None \<Rightarrow> None | Some year \<Rightarrow>
        (case parse_range (take 2 (drop 5 s)) 1 12 of None \<Rightarrow> None | Some month \<Rightarrow>
        (case parse_range (take 2 (drop 8 s)) 1 (daysIn month year) of None \<Rightarrow> None | Some day \<Rightarrow>
        (case parse_range (take 2 (drop 11 s)) 0 23 of None \<Rightarrow> None | Some hour \<Rightarrow>
        (case parse_range (take 2 (drop 14 s)) 0 59 of None \<Rightarrow> None | Some minute \<Rightarrow>
        (case parse_range (take 2 (drop 17 s)) 0 59 of None \<Rightarrow> None | Some sec \<Rightarrow>
           (let frac = fraction_digits (drop 19 s);
                zone = (if frac = [] then drop 19 s else drop (20 + length frac) s);
                local_sec = ((days_from_civil year month day * 24 + int hour) * 60 + int minute) * 60
                              + int sec
            in (case zone_offset zone of
                  None \<Rightarrow> None
                | Some off \<Rightarrow> Some ((local_sec - off) * 1000000000 + int (fraction_nsec frac))))))))))
      else None)"

definition two_digits :: "int \<Rightarrow> string" where
  "two_digits n = (if n < 10 then CHR ''0'' # fmt_d n else fmt_d n)"

definition cet_HHMM :: "Time \<Rightarrow> string" where
  "cet_HHMM t =
     (let secs = t div 1000000000 + 3600
      in two_digits ((secs div 3600) mod 24) @ '':'' @ two_digits ((secs div 60) mod 60))"

definition cet_lib :: golib where
  "cet_lib =
     \<lparr>strings_ToLower = map ascii_lower,
      strings_TrimSpace = (\<lambda>s. rev (dropWhile ascii_space (rev (dropWhile ascii_space s)))),
      strings_Title = title_from True,
      time_Parse = (\<lambda>layout v. rfc3339_Parse v),
      local_HHMM = cet_HHMM,
      whole_Minutes = (\<lambda>d. d sdiv 60000000000)\<rparr>"

section \<open>Fixtures of the program and the vocabulary of the specification\<close>

text \<open>The dry-run data of the two clients and the constructor of the handler.\<close>

definition dryRunSites :: "Site list" where
  "dryRunSites =
     [\<lparr>site_Name = ''Storgatan'', site_SiteID = 3484, site_Type = ''STOP_AREA''\<rparr>,
      \<lparr>site_Name = ''Fr'' @ [CHR 0xC3, CHR 0xB6] @ ''sunda torg'', site_SiteID = 3455,
         site_Type = ''STOP_AREA''\<rparr>,
      \<lparr>site_Name = ''Solna centrum norra'', site_SiteID = 3472, site_Type = ''STOP_AREA''\<rparr>,
      \<lparr>site_Name = ''Solna centrum'', site_SiteID = 9305, site_Type = ''STOP_AREA''\<rparr>]"

definition dry_point :: "string \<Rightarrow> string \<Rightarrow> string \<Rightarrow> string \<Rightarrow> string \<Rightarrow> LegPoint" where
  "dry_point n dp de ap ae =
     \<lparr>lp_ID = [], lp_Name = n, lp_Type = [], DepartureTimePlanned = dp,
      DepartureTimeEstimated = de, ArrivalTimePlanned = ap, ArrivalTimeEstimated = ae\<rparr>"

definition dry_leg :: "go_int \<Rightarrow> LegPoint \<Rightarrow> LegPoint \<Rightarrow> Transportation option \<Rightarrow> string \<Rightarrow> Leg" where
  "dry_leg d orig dest tr ty =
     \<lparr>leg_Duration = d, leg_Origin = orig, leg_Destination = dest, leg_Transportation = tr,
      leg_RealtimeStatus = [], leg_IsRealtimeControlled = False, leg_Type = ty\<rparr>"

definition dry_transport :: "string \<Rightarrow> string \<Rightarrow> Transportation" where
  "dry_transport number product =
     \<lparr>tr_Name = [], tr_Number = number, tr_DisassembledName = [],
      tr_Product = \<lparr>prod_ID = 0, prod_Class = 0, prod_Name = product\<rparr>, tr_Destination = None\<rparr>"

definition dryRunTrips :: "string \<Rightarrow> string \<Rightarrow> int \<Rightarrow> Journey list" where
  "dryRunTrips origin destination count =
     (let journeys =
        [\<lparr>TripID = ''dry:1'', TripDuration = 18 * 60, TripRtDuration = 19 * 60, Interchanges = 0,
          Legs =
            [dry_leg (4 * 60) (dry_point origin [] [] [] []) (dry_point ''Storgatan'' [] [] [] [])
               None ''walk'',
             dry_leg (15 * 60)
               (dry_point ''Storgatan'' ''2026-01-03T08:00:00Z'' ''2026-01-03T08:02:00Z'' [] [])
               (dry_point destination [] [] ''2026-01-03T08:15:00Z'' ''2026-01-03T08:17:00Z'')
               (Some (dry_transport ''515'' ''Bus'')) []]\<rparr>,
         \<lparr>TripID = ''dry:2'', TripDuration = 22 * 60, TripRtDuration = 22 * 60, Interchanges = 1,
          Legs =
            [dry_leg (3 * 60) (dry_point origin [] [] [] []) (dry_point ''Stop A'' [] [] [] [])
               None ''walk'',
             dry_leg (10 * 60)
               (dry_point ''Stop A'' ''2026-01-03T08:10:00Z'' ''2026-01-03T08:10:00Z'' [] [])
               (dry_point ''Stop B'' [] [] ''2026-01-03T08:20:00Z'' ''2026-01-03T08:20:00Z'')
               (Some (dry_transport ''11'' ''Metro'')) [],
             dry_leg (9 * 60) (dry_point ''Stop B'' [] [] [] []) (dry_point destination [] [] [] [])
               None ''walk'']\<rparr>,
         \<lparr>TripID = ''dry:3'', TripDuration = 25 * 60, TripRtDuration = 24 * 60, Interchanges = 0,
          Legs =
            [dry_leg (25 * 60) (dry_point origin ''2026-01-03T08:30:00Z'' [] [] [])
               (dry_point destination [] [] ''2026-01-03T08:55:00Z'' [])
               (Some (dry_transport ''515'' ''Bus'')) []]\<rparr>]
      in if count \<le> 0 \<or> count \<ge> int (length journeys) then journeys
         else take (nat count) journeys)"

definition NewHandler :: "Client \<Rightarrow> string \<Rightarrow> string \<Rightarrow> UserStore \<Rightarrow> Handler" where
  "NewHandler c home work store =
     \<lparr>jpClient = c, homeSiteID = home, workSiteID = work, userStore = store,
      pendingHome = Map.empty, pendingWork = Map.empty\<rparr>"

text \<open>
  The search result of the specification's end-to-end scenario, and a handler that has
  just issued the prompt for it to user 42 in chat 7 (for each role).
\<close>

definition odenplan_locs :: "Location list" where
  "odenplan_locs =
     [dry_location ''9091001000009117'' ''Odenplan'' ''stop'' True,
      dry_location ''9091001000009118'' ''Odenplan Norra'' ''stop'' False,
      dry_location ''streetID:1500000123'' (''Odenplanv'' @ [CHR 0xC3, CHR 0xA4] @ ''gen'') ''street''
        False]"

definition fresh_handler :: Handler where
  "fresh_handler =
     NewHandler \<lparr>dryRun = False\<rparr> [] [] \<lparr>us_prefs = Map.empty, us_file = ''data/userprefs.json''\<rparr>"

definition prompted_handler :: Handler where
  "prompted_handler =
     fst (handleSetWork
            (fst (handleSetHome fresh_handler 7 42 ''odenplan'' (Inr odenplan_locs) None))
            7 42 ''odenplan'' (Inr odenplan_locs) None)"

definition click :: "string \<Rightarrow> CallbackQuery" where
  "click data = \<lparr>cb_Data = data, cb_ChatID = 7, cb_MessageID = 99\<rparr>"

text \<open>
  The specification's words. An addressing token decodes to a triple (role, user, position)
  when it has three fields separated by underscores, of which the second and the third are
  integers: \<open>decodeToken\<close>, written with the parsers the handler calls. A token is
  \<open>malformed\<close> when the handler cannot read it: not three fields, or a user field that is
  no decimal integer of the 64-bit range, or, for any action other than \<open>priority\<close>, a last
  field that is no such integer.
  The count of options the formatter is to render: \<open>effective_count\<close>. What the matcher is
  to return: \<open>substring_matches\<close>.
\<close>

definition decodeToken :: "string \<Rightarrow> (string \<times> int \<times> int) option" where
  "decodeToken data =
     (case Split data CHR ''_'' of
        [action, userField, lastField] \<Rightarrow>
          (case ParseInt userField of
             None \<Rightarrow> None
           | Some userID \<Rightarrow>
               (case Atoi lastField of
                  None \<Rightarrow> None
                | Some position \<Rightarrow> Some (action, userID, position)))
      | _ \<Rightarrow> None)"

definition malformed :: "string \<Rightarrow> bool" where
  "malformed data =
     (case Split data CHR ''_'' of
        [action, userField, lastField] \<Rightarrow>
          (case ParseInt userField of
             None \<Rightarrow> True
           | Some userID \<Rightarrow>
               if action = ''priority'' then False
               else (case Atoi lastField of None \<Rightarrow> True | Some position \<Rightarrow> False))
      | _ \<Rightarrow> True)"

definition effective_count :: "int \<Rightarrow> nat \<Rightarrow> nat" where
  "effective_count requested available =
     min (nat (if requested \<le> 0 then 3 else requested)) available"

definition substring_matches :: "golib \<Rightarrow> string \<Rightarrow> Site list \<Rightarrow> int \<Rightarrow> Site list" where
  "substring_matches L query sites count =
     take (nat count)
       (filter (\<lambda>site. sublist (strings_ToLower L query) (strings_ToLower L (site_Name site))) sites)"

section \<open>Package bot, legacy revision: selection by site identifier\<close>

text \<open>
  \<open>internal/bot/handler.go\<close> is the handler as it was before the journey planner: it
  matches the query against the cached list of sites with \<open>FuzzyMatch\<close>, and a button
  carries the identifier of the site, not its position. Its preference store has the same
  setters (the fields were then named \<open>HomeSiteID\<close> and \<open>WorkSiteID\<close>), so the model of
  package store serves both revisions. \<open>fetched\<close> is what the request of \<open>GetSites\<close> to
  the backend comes back with.
\<close>

record LegacyHandler =
  slClient :: Client
  lg_homeSiteID :: string
  lg_workSiteID :: string
  lg_userStore :: UserStore
  lg_sites :: "Site list"
  lg_pendingHome :: "int \<rightharpoonup> Site list"
  lg_pendingWork :: "int \<rightharpoonup> Site list"

definition GetSites :: "Client \<Rightarrow> go_error + Site list \<Rightarrow> go_error + Site list" where
  "GetSites c fetched = (if dryRun c then Inr dryRunSites else fetched)"

definition msg_fetch_failed :: string where
  "msg_fetch_failed = cross_mark @ '' Error fetching sites. Try again later.''"

definition msg_no_sites :: "string \<Rightarrow> string" where
  "msg_no_sites query = cross_mark @ '' No sites found matching '' @ [CHR 0x27] @ query @ [CHR 0x27]"

definition msg_site_not_found :: string where
  "msg_site_not_found = cross_mark @ '' Site not found in pending selections.''"

definition site_buttons :: "string \<Rightarrow> int \<Rightarrow> Site list \<Rightarrow> (string \<times> string) list" where
  "site_buttons role userID matches =
     map (\<lambda>site. (site_Name site, role @ ''_'' @ fmt_d userID @ ''_'' @ fmt_d (site_SiteID site)))
       matches"

text \<open>The first part of both \<open>handleSetHome\<close> and \<open>handleSetWork\<close>: fill the cache of
  sites when it is empty.\<close>

definition load_sites :: "LegacyHandler \<Rightarrow> go_error + Site list \<Rightarrow> go_error + LegacyHandler" where
  "load_sites h fetched =
     (if length (lg_sites h) = 0
      then (case GetSites (slClient h) fetched of
              Inl err \<Rightarrow> Inl err
            | Inr sites \<Rightarrow> Inr (h\<lparr>lg_sites := sites\<rparr>))
      else Inr h)"

definition legacy_handleSetHome ::
  "golib \<Rightarrow> LegacyHandler \<Rightarrow> int \<Rightarrow> int \<Rightarrow> string \<Rightarrow> go_error + Site list \<Rightarrow> go_error option
     \<Rightarrow> LegacyHandler \<times> event list" where
  "legacy_handleSetHome L h chatID userID query fetched disk =
     (if query = [] then (h, [SendMessage chatID (question_mark @ '' Usage: /sethome <location name>'')])
      else
        (case load_sites h fetched of
           Inl err \<Rightarrow> (h, [SendMessage chatID msg_fetch_failed])
         | Inr h1 \<Rightarrow>
             (let matches = FuzzyMatch L query (lg_sites h1) 3
              in if length matches = 0 then (h1, [SendMessage chatID (msg_no_sites query)])
                 else if length matches = 1 then
                   (let selected = matches ! 0;
                        saved = SetHome (lg_userStore h1) userID (fmt_d (site_SiteID selected)) disk
                    in case snd saved of
                         Some err \<Rightarrow>
                           (h1\<lparr>lg_userStore := fst saved\<rparr>, [SendMessage chatID msg_save_failed_later])
                       | None \<Rightarrow>
                           (h1\<lparr>lg_userStore := fst saved\<rparr>,
                            [SendMessage chatID (msg_home_set (site_Name selected))]))
                 else
                   (h1\<lparr>lg_pendingHome := (lg_pendingHome h1)(userID \<mapsto> matches)\<rparr>,
                    [SendPrompt chatID (msg_multiple query) (site_buttons ''home'' userID matches)]))))"

definition legacy_handleSetWork ::
  "golib \<Rightarrow> LegacyHandler \<Rightarrow> int \<Rightarrow> int \<Rightarrow> string \<Rightarrow> go_error + Site list \<Rightarrow> go_error option
     \<Rightarrow> LegacyHandler \<times> event list" where
  "legacy_handleSetWork L h chatID userID query fetched disk =
     (if query = [] then (h, [SendMessage chatID (question_mark @ '' Usage: /setwork <location name>'')])
      else
        (case load_sites h fetched of
           Inl err \<Rightarrow> (h, [SendMessage chatID msg_fetch_failed])
         | Inr h1 \<Rightarrow>
             (let matches = FuzzyMatch L query (lg_sites h1) 3
              in if length matches = 0 then (h1, [SendMessage chatID (msg_no_sites query)])
                 else if length matches = 1 then
                   (let selected = matches ! 0;
                        saved = SetWork (lg_userStore h1) userID (fmt_d (site_SiteID selected)) disk
                    in case snd saved of
                         Some err \<Rightarrow>
                           (h1\<lparr>lg_userStore := fst saved\<rparr>, [SendMessage chatID msg_save_failed_later])
                       | None \<Rightarrow>
                           (h1\<lparr>lg_userStore := fst saved\<rparr>,
                            [SendMessage chatID (msg_work_set (site_Name selected))]))
                 else
                   (h1\<lparr>lg_pendingWork := (lg_pendingWork h1)(userID \<mapsto> matches)\<rparr>,
                    [SendPrompt chatID (msg_multiple query) (site_buttons ''work'' userID matches)]))))"

text \<open>
  The legacy \<open>HandleCallback\<close>: the name of the first pending site with the clicked
  identifier, or the empty string when there is none (\<open>pending_site_name\<close>), decides
  between the not-found message and the write.
\<close>

definition pending_site_name :: "(int \<rightharpoonup> Site list) \<Rightarrow> int \<Rightarrow> int \<Rightarrow> string" where
  "pending_site_name m userID siteID =
     (case find (\<lambda>site. site_SiteID site = siteID) (case m userID of None \<Rightarrow> [] | Some ms \<Rightarrow> ms) of
        None \<Rightarrow> []
      | Some site \<Rightarrow> site_Name site)"

definition legacy_callback_home ::
  "LegacyHandler \<Rightarrow> CallbackQuery \<Rightarrow> int \<Rightarrow> int \<Rightarrow> go_error option \<Rightarrow> LegacyHandler \<times> event list" where
  "legacy_callback_home h callback userID siteID disk =
     (let siteName = pending_site_name (lg_pendingHome h) userID siteID
      in if siteName = [] then (h, [SendMessage (cb_ChatID callback) msg_site_not_found])
         else
           (let saved = SetHome (lg_userStore h) userID (fmt_d siteID) disk
            in case snd saved of
                 Some err \<Rightarrow>
                   (h\<lparr>lg_userStore := fst saved\<rparr>, [SendMessage (cb_ChatID callback) msg_save_failed])
               | None \<Rightarrow>
                   (h\<lparr>lg_userStore := fst saved, lg_pendingHome := (lg_pendingHome h)(userID := None)\<rparr>,
                    [EditMessageText (cb_ChatID callback) (cb_MessageID callback)
                       (msg_home_set siteName)])))"

definition legacy_callback_work ::
  "LegacyHandler \<Rightarrow> CallbackQuery \<Rightarrow> int \<Rightarrow> int \<Rightarrow> go_error option \<Rightarrow> LegacyHandler \<times> event list" where
  "legacy_callback_work h callback userID siteID disk =
     (let siteName = pending_site_name (lg_pendingWork h) userID siteID
      in if siteName = [] then (h, [SendMessage (cb_ChatID callback) msg_site_not_found])
         else
           (let saved = SetWork (lg_userStore h) userID (fmt_d siteID) disk
            in case snd saved of
                 Some err \<Rightarrow>
                   (h\<lparr>lg_userStore := fst saved\<rparr>, [SendMessage (cb_ChatID callback) msg_save_failed])
               | None \<Rightarrow>
                   (h\<lparr>lg_userStore := fst saved, lg_pendingWork := (lg_pendingWork h)(userID := None)\<rparr>,
                    [EditMessageText (cb_ChatID callback) (cb_MessageID callback)
                       (msg_work_set siteName)])))"

definition legacy_HandleCallback ::
  "LegacyHandler \<Rightarrow> CallbackQuery \<Rightarrow> go_error option \<Rightarrow> LegacyHandler \<times> event list" where
  "legacy_HandleCallback h callback disk =
     (case Split (cb_Data callback) CHR ''_'' of
        [action, userField, siteField] \<Rightarrow>
          (case ParseInt userField of
             None \<Rightarrow> (h, [])
           | Some userID \<Rightarrow>
               (case Atoi siteField of
                  None \<Rightarrow> (h, [])
                | Some siteID \<Rightarrow>
                    if action = ''home'' then legacy_callback_home h callback userID siteID disk
                    else if action = ''work'' then legacy_callback_work h callback userID siteID disk
                    else (h, [])))
      | _ \<Rightarrow> (h, []))"

section \<open>Properties of the library model and of the matcher\<close>

lemmas lib_evals = cet_lib_def rfc3339_Parse_def parse_range_def is_digit_def digit_val_def daysIn_def
  is_leap_def days_from_civil_def fraction_digits_def fraction_nsec_def zone_offset_def cet_HHMM_def
  two_digits_def fmt_d_def decimal.simps ascii_lower_def ascii_upper_def ascii_space_def
  ascii_letter_or_digit_def

lemmas format_evals = FormatJourneys_def option_block_def getJourneyArrivalTime_def formatLeg_def
  leg_productName_def formatDepartureCompact_def parseAndConvertToLocal_def parseRFC3339ToLocal_def
  RFC3339_def RFC3339Nano_def Sub_def formatName_def durationMin_def int_quo_def leg_names_def
  line_header_def other_header_def depart_on_time_def depart_late_def depart_early_def
  depart_fallback_def

lemmas handler_evals = HandleCallback_def callback_home_def callback_work_def callback_priority_def
  pending_at_def SetHome_def SetWork_def SetPriority_def saveToFile_def GetPrefs_def
  no_preferences_def handleSetHome_def handleSetWork_def StopFinder_def limit_locs_def ParseInt_def
  ParseUint_def Atoi_def is_digit_def digit_val_def decodeToken_def malformed_def

lemmas fixture_evals = prompted_handler_def fresh_handler_def NewHandler_def odenplan_locs_def
  click_def dry_location_def

lemma Contains_sublist: "Contains s substr \<longleftrightarrow> sublist substr s"
  by (induction s) (auto simp: sublist_Cons_right)

lemma FuzzyMatch_loop_eq:
  "FuzzyMatch_loop L q count sites ms =
     ms @ take (nat (max 1 (count - int (length ms))))
            (filter (\<lambda>s. Contains (strings_ToLower L (site_Name s)) q) sites)"
proof (induction sites arbitrary: ms)
  case Nil
  then show ?case by simp
next
  case (Cons a sites)
  have step: "nat (count - int (length ms)) - Suc 0 = nat (count - (1 + int (length ms)))"
    by linarith
  show ?case
    using Cons by (auto simp: max_def take_Cons' step)
qed

text \<open>
  What \<open>FuzzyMatch\<close> computes for every count: the matching sites in the order of the
  source list, cut to \<open>count\<close> when \<open>count\<close> is positive and to one site otherwise.
\<close>

lemma FuzzyMatch_eq:
  "FuzzyMatch L query sites count =
     take (nat (max 1 count))
       (filter (\<lambda>s. sublist (strings_ToLower L query) (strings_ToLower L (site_Name s))) sites)"
  by (simp add: FuzzyMatch_def FuzzyMatch_loop_eq Contains_sublist)

lemma FuzzyMatch_positive_count:
  "1 \<le> count \<Longrightarrow> FuzzyMatch L query sites count = substring_matches L query sites count"
  by (simp add: FuzzyMatch_eq substring_matches_def max_def)

text \<open>
  Claim C7. The matcher is to return the sites whose lower-cased name contains the
  lower-cased query, in source order, cut to at most the requested count. For a requested
  count of 0 the code returns one site where the claim allows none: on the dry-run sites the
  query \<open>solna\<close> with count 0 yields \<open>Solna centrum norra\<close>.
\<close>

theorem FuzzyMatch_zero_count:
  "FuzzyMatch cet_lib ''solna'' dryRunSites 0 = [dryRunSites ! 2]
   \<and> substring_matches cet_lib ''solna'' dryRunSites 0 = []"
  by (simp add: FuzzyMatch_def substring_matches_def dryRunSites_def cet_lib_def ascii_lower_def)

section \<open>Properties of the itinerary formatter\<close>

lemma sint_durationMin:
  assumes "0 \<le> sint s" "sint s \<le> 2 ^ 63 - 60"
  shows "sint (durationMin s) = (sint s + 59) div 60"
proof -
  have s59: "sint (s + 59) = sint s + 59"
    using assms by (simp add: sint_word_ariths signed_take_bit_int_eq_self)
  have q: "(sint s + 59) sdiv 60 = (sint s + 59) div 60"
    using assms by (simp add: signed_divide_int_def sgn_if)
  have b: "(sint s + 59) div 60 < 2 ^ 63" "- (2 ^ 63) \<le> (sint s + 59) div 60"
    using assms by simp_all
  have "durationMin s = word_of_int ((sint s + 59) div 60)"
    by (simp add: durationMin_def int_quo_def s59 q)
  then have "sint (durationMin s) = signed_take_bit 63 ((sint s + 59) div 60)"
    by (simp add: sint_sbintrunc')
  also have "\<dots> = (sint s + 59) div 60"
    using b by (intro signed_take_bit_int_eq_self) simp_all
  finally show ?thesis .
qed

lemma ceiling_sixtieth: "\<lceil>real_of_int k / 60\<rceil> = (k + 59) div 60"
proof -
  have "\<lceil>real_of_int k / real_of_int 60\<rceil> = - (- k div 60)"
    by (rule ceiling_divide_eq_div)
  then show ?thesis by simp
qed

lemma durationMin_ceiling:
  "0 \<le> sint s \<Longrightarrow> sint s \<le> 2 ^ 63 - 60 \<Longrightarrow> sint (durationMin s) = \<lceil>real_of_int (sint s) / 60\<rceil>"
  by (simp only: sint_durationMin ceiling_sixtieth)

text \<open>
  Above the bound the sum \<open>duration + 59\<close> has wrapped around, and the minutes are
  negative.
\<close>

lemma signed_take_bit_wrapped:
  fixes k :: int
  assumes "2 ^ 63 \<le> k" "k < 2 ^ 63 + 59"
  shows "signed_take_bit 63 k = k - 2 ^ 64"
proof -
  define a where "a = k + 2 ^ 63 - 2 ^ 64"
  have a: "0 \<le> a" "a < 2 ^ 64"
    using assms by (simp_all add: a_def)
  have "(a + 2 ^ 64) mod 2 ^ 64 = a"
    using a by (simp only: mod_add_self2 mod_pos_pos_trivial)
  moreover have "a + 2 ^ 64 = k + 2 ^ 63"
    by (simp add: a_def)
  ultimately have "(k + 2 ^ 63) mod 2 ^ 64 = a"
    by (simp only:)
  then show ?thesis
    by (simp only: signed_take_bit_eq_take_bit_shift take_bit_eq_mod a_def) simp
qed

lemma durationMin_above_bound:
  assumes "2 ^ 63 - 60 < sint s"
  shows "sint (durationMin s) < 0"
proof -
  define k where "k = sint s + 59"
  define m where "m = (2 ^ 64 - k) div 60"
  have up: "sint s < 2 ^ 63"
    using sint_lt [of s] by simp
  have k: "2 ^ 63 \<le> k" "k < 2 ^ 63 + 59"
    using assms up by (simp_all add: k_def)
  have s59: "sint (s + 59) = k - 2 ^ 64"
    using signed_take_bit_wrapped [OF k] by (simp add: sint_word_ariths k_def)
  have m: "1 \<le> m" "m \<le> 2 ^ 63"
    using k by (simp_all add: m_def)
  have "\<bar>k - 2 ^ 64\<bar> = 2 ^ 64 - k" "sgn (k - 2 ^ 64) = - 1"
    using k by simp_all
  then have q: "(k - 2 ^ 64) sdiv 60 = - m"
    by (simp only: signed_divide_int_def m_def) simp
  then have q': "(k - 18446744073709551616) sdiv 60 = - m"
    by simp
  have "durationMin s = word_of_int (- m)"
    by (simp add: durationMin_def int_quo_def s59 q')
  then have "sint (durationMin s) = signed_take_bit 63 (- m)"
    by (simp only: sint_sbintrunc') simp
  also have "\<dots> = - m"
    using m by (intro signed_take_bit_int_eq_self) simp_all
  finally show ?thesis
    using m by simp
qed

text \<open>
  Claim C8, as stated: for every non-negative number of seconds the rendered minutes are
  the ceiling of a sixtieth. It fails at the top of the 64-bit range, where \<open>duration + 59\<close>
  wraps around: \<open>2 ^ 63 - 1\<close> seconds render as a negative number of minutes.
\<close>

theorem durationMin_wraps:
  "0 \<le> sint (9223372036854775807 :: go_int)
   \<and> sint (durationMin 9223372036854775807) = - 153722867280912929
   \<and> \<lceil>real_of_int (sint (9223372036854775807 :: go_int)) / 60\<rceil> = 153722867280912931"
  by (simp add: durationMin_def int_quo_def)

text \<open>
  Claim C8, amended: for every number of seconds \<open>s\<close> with \<open>0 \<le> s \<le> 2 ^ 63 - 60\<close> the
  minutes are \<open>\<lceil>s / 60\<rceil>\<close>; a walking leg of \<open>s\<close> seconds prints that number after
  \<open>Walk\<close>, and the header of a journey whose duration (the realtime one unless it is 0) is
  \<open>s\<close> prints it after the option's number.
\<close>

theorem duration_rounds_up:
  assumes "0 \<le> sint s" and "sint s \<le> 2 ^ 63 - 60"
  shows "sint (durationMin s) = \<lceil>real_of_int (sint s) / 60\<rceil>
    \<and> ((leg_productName L leg = ''footpath'' \<or> leg_productName L leg = []) \<and> leg_Duration leg = s
         \<longrightarrow> formatLeg L leg =
               icon_walk @ '' Walk '' @ fmt_d \<lceil>real_of_int (sint s) / 60\<rceil> @ '' min'' @ nl
                 @ leg_names leg)
    \<and> ((if TripRtDuration j = 0 then TripDuration j else TripRtDuration j) = s
         \<longrightarrow> (\<exists>rest. option_block L i j =
                 separator_line @ ''Option '' @ fmt_d (int i + 1) @ '' (''
                   @ fmt_d \<lceil>real_of_int (sint s) / 60\<rceil> @ '' min'' @ rest))"
proof -
  have m: "sint (durationMin s) = \<lceil>real_of_int (sint s) / 60\<rceil>"
    using assms by (rule durationMin_ceiling)
  have walk: "formatLeg L leg =
      icon_walk @ '' Walk '' @ fmt_d \<lceil>real_of_int (sint s) / 60\<rceil> @ '' min'' @ nl @ leg_names leg"
    if "leg_productName L leg = ''footpath'' \<or> leg_productName L leg = []" "leg_Duration leg = s"
    using that m by (auto simp: formatLeg_def Let_def)
  have header: "\<exists>rest. option_block L i j =
      separator_line @ ''Option '' @ fmt_d (int i + 1) @ '' ('' @ fmt_d \<lceil>real_of_int (sint s) / 60\<rceil>
        @ '' min'' @ rest"
    if "(if TripRtDuration j = 0 then TripDuration j else TripRtDuration j) = s"
    using that m by (auto simp: option_block_def Let_def)
  show ?thesis
    using m walk header by blast
qed

theorem duration_rounds_up_witness:
  "sint (durationMin 179) = 3 \<and> sint (durationMin 180) = 3 \<and> sint (durationMin 181) = 4
   \<and> formatLeg cet_lib (dry_leg 181 (dry_point ''Home'' [] [] [] []) (dry_point ''Storgatan'' [] [] [] []) None ''walk'')
       = icon_walk @ '' Walk 4 min'' @ nl @ ''  Home '' @ arrow @ '' Storgatan'' @ nl"
proof -
  let ?leg = "dry_leg 181 (dry_point ''Home'' [] [] [] []) (dry_point ''Storgatan'' [] [] [] []) None ''walk''"
  have a: "sint (durationMin 179) = 3"
    using duration_rounds_up [of 179] by simp
  have b: "sint (durationMin 180) = 3"
    using duration_rounds_up [of 180] by simp
  have c: "sint (durationMin 181) = 4"
    using duration_rounds_up [of 181] by simp
  have d: "formatLeg cet_lib ?leg = icon_walk @ '' Walk 4 min'' @ nl @ ''  Home '' @ arrow @ '' Storgatan'' @ nl"
    using duration_rounds_up [of 181 cet_lib ?leg]
    by (simp add: leg_productName_def dry_leg_def dry_point_def leg_names_def formatName_def
        fmt_d_def decimal.simps)
  show ?thesis
    using a b c d by simp
qed

text \<open>
  The departure line, case by case, for every library. No line when both timestamps are
  empty; an estimated time that is empty takes the planned one; equal texts, or an empty
  planned text, give the on-time line.
\<close>

lemma formatDepartureCompact_absent: "formatDepartureCompact L [] [] = []"
  by (simp add: formatDepartureCompact_def parseAndConvertToLocal_def)

lemma formatDepartureCompact_planned_only:
  "parseAndConvertToLocal L planned \<noteq> [] \<Longrightarrow>
     formatDepartureCompact L planned [] = depart_on_time (parseAndConvertToLocal L planned)"
  by (simp add: formatDepartureCompact_def parseAndConvertToLocal_def)

lemma formatDepartureCompact_estimated_only:
  "parseAndConvertToLocal L estimated \<noteq> [] \<Longrightarrow>
     formatDepartureCompact L [] estimated = depart_on_time (parseAndConvertToLocal L estimated)"
  by (simp add: formatDepartureCompact_def parseAndConvertToLocal_def)

lemma formatDepartureCompact_same_minute:
  "parseAndConvertToLocal L planned = parseAndConvertToLocal L estimated \<Longrightarrow>
   parseAndConvertToLocal L planned \<noteq> [] \<Longrightarrow>
     formatDepartureCompact L planned estimated = depart_on_time (parseAndConvertToLocal L planned)"
  by (simp add: formatDepartureCompact_def)

text \<open>
  Two timestamps that both parse and differ in their texts: the line is chosen by the sign
  of the whole minutes between them, and the line without a number is what remains when
  that number is 0.
\<close>

lemma formatDepartureCompact_parsed:
  assumes "parseRFC3339ToLocal L planned = Some p" and "parseRFC3339ToLocal L estimated = Some e"
    and "parseAndConvertToLocal L planned \<noteq> parseAndConvertToLocal L estimated"
    and "parseAndConvertToLocal L planned \<noteq> []" and "parseAndConvertToLocal L estimated \<noteq> []"
  shows "formatDepartureCompact L planned estimated =
     (let n = whole_Minutes L (Sub e p);
          pt = parseAndConvertToLocal L planned;
          et = parseAndConvertToLocal L estimated
      in if 0 < n then depart_late pt et n
         else if n < 0 then depart_early pt et n
         else depart_fallback pt et)"
  using assms by (simp add: formatDepartureCompact_def Let_def)

lemma formatDepartureCompact_unparsed:
  assumes "parseRFC3339ToLocal L planned = None \<or> parseRFC3339ToLocal L estimated = None"
    and "parseAndConvertToLocal L planned \<noteq> parseAndConvertToLocal L estimated"
    and "parseAndConvertToLocal L planned \<noteq> []" and "parseAndConvertToLocal L estimated \<noteq> []"
  shows "formatDepartureCompact L planned estimated =
     depart_fallback (parseAndConvertToLocal L planned) (parseAndConvertToLocal L estimated)"
  using assms by (auto simp: formatDepartureCompact_def Let_def split: option.splits)

text \<open>
  Claim C6. The line without a number is to appear only when the difference of the two
  times cannot be computed. The code also falls through to it when the difference is
  computed and is less than a minute while the two times lie in different minutes:
  planned 08:00:59Z and estimated 08:01:00Z both parse, are one second apart, and are
  rendered with the warning sign and no number.
\<close>

theorem departure_sub_minute_fallback:
  "parseRFC3339ToLocal cet_lib ''2026-01-03T08:00:59Z'' = Some 1767427259000000000
   \<and> parseRFC3339ToLocal cet_lib ''2026-01-03T08:01:00Z'' = Some 1767427260000000000
   \<and> whole_Minutes cet_lib (Sub 1767427260000000000 1767427259000000000) = 0
   \<and> formatDepartureCompact cet_lib ''2026-01-03T08:00:59Z'' ''2026-01-03T08:01:00Z''
       = ''  Depart: 09:00 '' @ arrow @ '' '' @ warning_sign @ '' 09:01'' @ nl"
  by (simp add: lib_evals format_evals)

lemma FormatJourneys_loop_eq:
  "i \<le> count \<Longrightarrow> count \<le> length js \<Longrightarrow>
     FormatJourneys_loop L js count i b =
       b @ concat (map (\<lambda>k. option_block L k (js ! k)) [i..<count])"
proof (induction L js count i b rule: FormatJourneys_loop.induct)
  case (1 L journeys count i b)
  show ?case
  proof (cases "i < count")
    case True
    then show ?thesis
      using 1 by (subst FormatJourneys_loop.simps) (simp add: upt_conv_Cons)
  next
    case False
    then show ?thesis
      using 1 by (subst FormatJourneys_loop.simps) simp
  qed
qed

lemma blocks_enumerate:
  "n \<le> length js \<Longrightarrow>
     map (\<lambda>k. option_block L k (js ! k)) [0..<n] =
       map (\<lambda>(i, j). option_block L i j) (enumerate 0 (take n js))"
  by (auto simp: list_eq_iff_nth_eq nth_enumerate_eq)

lemma FormatJourneys_clamp:
  "(if int (length js) < (if count \<le> 0 then 3 else count) then int (length js)
    else (if count \<le> 0 then 3 else count)) = int (effective_count count (length js))"
  by (auto simp: effective_count_def min_def)

text \<open>The first dry-run journey, as the formatter prints it.\<close>

lemma dry_run_rendering:
  "option_block cet_lib 0 (hd (dryRunTrips ''Home'' ''Work'' 3)) =
     separator_line @ ''Option 1 (19 min, arrives 09:17)'' @ nl @ nl
     @ icon_walk @ '' Walk 4 min'' @ nl @ ''  Home '' @ arrow @ '' Storgatan'' @ nl @ nl
     @ icon_bus @ '' 515'' @ nl
     @ ''  Depart: 09:00 '' @ arrow @ '' '' @ warning_sign @ '' 09:02 (+2 min)'' @ nl
     @ ''  Storgatan '' @ arrow @ '' Work'' @ nl @ nl @ nl"
  by (simp add: lib_evals format_evals dryRunTrips_def dry_leg_def dry_point_def dry_transport_def)

lemma option_block_starts:
  "\<exists>rest. option_block L i j = separator_line @ ''Option '' @ fmt_d (int i + 1) @ '' ('' @ rest"
  by (simp add: option_block_def Let_def)

text \<open>
  Claim C9. The formatter renders the first \<open>n\<close> journeys, one block each, numbered from
  1, where \<open>n\<close> is the smaller of the requested count (3 when the request is not positive)
  and the number of journeys; the block of the journey at index \<open>i\<close> begins with the
  separator line and the header \<open>Option i+1 (\<close>; an empty list gives exactly
  \<open>No journeys found.\<close>
\<close>

theorem FormatJourneys_count:
  "FormatJourneys L originLabel destinationLabel journeys count =
     (if journeys = [] then ''No journeys found.''
      else strings_TrimSpace L
             (concat (map (\<lambda>(i, j). option_block L i j)
                (enumerate 0 (take (effective_count count (length journeys)) journeys)))))
   \<and> length (take (effective_count count (length journeys)) journeys)
       = min (if count \<le> 0 then 3 else nat count) (length journeys)
   \<and> (\<forall>i < effective_count count (length journeys).
         \<exists>rest. option_block L i (journeys ! i) =
           separator_line @ ''Option '' @ fmt_d (int i + 1) @ '' ('' @ rest)"
proof (cases "journeys = []")
  case True
  then show ?thesis
    by (simp add: FormatJourneys_def effective_count_def)
next
  case False
  define n where "n = effective_count count (length journeys)"
  have n: "n \<le> length journeys" "0 < n"
    using False by (auto simp: n_def effective_count_def)
  have "FormatJourneys L originLabel destinationLabel journeys count =
      strings_TrimSpace L (FormatJourneys_loop L journeys n 0 [])"
    using n by (simp add: FormatJourneys_def Let_def FormatJourneys_clamp n_def)
  also have "FormatJourneys_loop L journeys n 0 [] =
      concat (map (\<lambda>(i, j). option_block L i j) (enumerate 0 (take n journeys)))"
    using n by (simp add: FormatJourneys_loop_eq blocks_enumerate)
  finally have rendered: "FormatJourneys L originLabel destinationLabel journeys count =
      strings_TrimSpace L (concat (map (\<lambda>(i, j). option_block L i j) (enumerate 0 (take n journeys))))" .
  have "length (take n journeys) = min (if count \<le> 0 then 3 else nat count) (length journeys)"
    by (auto simp: n_def effective_count_def)
  with rendered False option_block_starts show ?thesis
    by (simp add: n_def)
qed

theorem FormatJourneys_count_witness:
  "FormatJourneys cet_lib ''Home'' ''Work'' [] 2 = ''No journeys found.''
   \<and> FormatJourneys cet_lib ''Home'' ''Work'' (dryRunTrips ''Home'' ''Work'' 3) 1
       = separator_line @ ''Option 1 (19 min, arrives 09:17)'' @ nl @ nl
         @ icon_walk @ '' Walk 4 min'' @ nl @ ''  Home '' @ arrow @ '' Storgatan'' @ nl @ nl
         @ icon_bus @ '' 515'' @ nl
         @ ''  Depart: 09:00 '' @ arrow @ '' '' @ warning_sign @ '' 09:02 (+2 min)'' @ nl
         @ ''  Storgatan '' @ arrow @ '' Work''
   \<and> FormatJourneys cet_lib ''Home'' ''Work'' (dryRunTrips ''Home'' ''Work'' 3) 2
       = strings_TrimSpace cet_lib
           (option_block cet_lib 0 (dryRunTrips ''Home'' ''Work'' 3 ! 0)
            @ option_block cet_lib 1 (dryRunTrips ''Home'' ''Work'' 3 ! 1))
   \<and> FormatJourneys cet_lib ''Home'' ''Work'' (dryRunTrips ''Home'' ''Work'' 3) 0
       = strings_TrimSpace cet_lib
           (option_block cet_lib 0 (dryRunTrips ''Home'' ''Work'' 3 ! 0)
            @ option_block cet_lib 1 (dryRunTrips ''Home'' ''Work'' 3 ! 1)
            @ option_block cet_lib 2 (dryRunTrips ''Home'' ''Work'' 3 ! 2))
   \<and> (\<exists>rest. option_block cet_lib 1 (dryRunTrips ''Home'' ''Work'' 3 ! 1)
                = separator_line @ ''Option 2 ('' @ rest)
   \<and> (\<exists>rest. option_block cet_lib 2 (dryRunTrips ''Home'' ''Work'' 3 ! 2)
                = separator_line @ ''Option 3 ('' @ rest)"
proof -
  let ?js = "dryRunTrips ''Home'' ''Work'' 3"
  obtain a b c where abc: "?js = [a, b, c]"
    by (simp add: dryRunTrips_def)
  have e: "FormatJourneys cet_lib ''Home'' ''Work'' [] 2 = ''No journeys found.''"
    using FormatJourneys_count [of cet_lib "''Home''" "''Work''" "[]" 2] by simp
  let ?text = "separator_line @ ''Option 1 (19 min, arrives 09:17)'' @ nl @ nl
         @ icon_walk @ '' Walk 4 min'' @ nl @ ''  Home '' @ arrow @ '' Storgatan'' @ nl @ nl
         @ icon_bus @ '' 515'' @ nl
         @ ''  Depart: 09:00 '' @ arrow @ '' '' @ warning_sign @ '' 09:02 (+2 min)'' @ nl
         @ ''  Storgatan '' @ arrow @ '' Work''"
  have block: "option_block cet_lib 0 (hd ?js) = ?text @ nl @ nl @ nl"
    by (simp only: dry_run_rendering append_assoc)
  have trimmed: "strings_TrimSpace cet_lib (?text @ nl @ nl @ nl) = ?text"
    by (simp add: cet_lib_def ascii_space_def separator_line_def nl_def arrow_def
        icon_walk_def icon_bus_def warning_sign_def eval_nat_numeral)
  have "FormatJourneys cet_lib ''Home'' ''Work'' ?js 1
      = strings_TrimSpace cet_lib (option_block cet_lib 0 (hd ?js))"
    using FormatJourneys_count [of cet_lib "''Home''" "''Work''" ?js 1]
    by (simp add: abc effective_count_def enumerate_eq_zip upt_rec)
  then have one: "FormatJourneys cet_lib ''Home'' ''Work'' ?js 1 = ?text"
    by (simp only: block trimmed)
  have two: "FormatJourneys cet_lib ''Home'' ''Work'' ?js 2
       = strings_TrimSpace cet_lib (option_block cet_lib 0 (?js ! 0) @ option_block cet_lib 1 (?js ! 1))"
    using FormatJourneys_count [of cet_lib "''Home''" "''Work''" ?js 2]
    by (simp add: abc effective_count_def enumerate_eq_zip upt_rec numeral_2_eq_2)
  have three: "FormatJourneys cet_lib ''Home'' ''Work'' ?js 0
       = strings_TrimSpace cet_lib
           (option_block cet_lib 0 (?js ! 0) @ option_block cet_lib 1 (?js ! 1)
            @ option_block cet_lib 2 (?js ! 2))"
    using FormatJourneys_count [of cet_lib "''Home''" "''Work''" ?js 0]
    by (simp add: abc effective_count_def enumerate_eq_zip upt_rec numeral_2_eq_2)
  have starts: "\<forall>i<3. \<exists>rest. option_block cet_lib i (?js ! i)
      = separator_line @ ''Option '' @ fmt_d (int i + 1) @ '' ('' @ rest"
    using FormatJourneys_count [of cet_lib "''Home''" "''Work''" ?js 0]
    by (simp add: abc effective_count_def)
  have s2: "\<exists>rest. option_block cet_lib 1 (?js ! 1) = separator_line @ ''Option 2 ('' @ rest"
    using starts [rule_format, of 1] by (simp add: fmt_d_def decimal.simps)
  have s3: "\<exists>rest. option_block cet_lib 2 (?js ! 2) = separator_line @ ''Option 3 ('' @ rest"
    using starts [rule_format, of 2] by (simp add: fmt_d_def decimal.simps)
  show ?thesis
    using e one two three s2 s3 by simp
qed

text \<open>
  Claim C10. The two labels are parameters of \<open>FormatJourneys\<close> that its body never
  reads: the text is the same whatever labels are passed.
\<close>

theorem FormatJourneys_ignores_labels:
  "FormatJourneys L originLabel destinationLabel journeys count =
     FormatJourneys L originLabel' destinationLabel' journeys count"
  by (simp add: FormatJourneys_def)

section \<open>Properties of the selection handler\<close>

lemma HandleCallback_decoded:
  assumes "decodeToken (cb_Data cb) = Some (action, userID, p)" and "action \<noteq> ''priority''"
  shows "HandleCallback h cb disk =
     (if action = ''homejp'' then callback_home h cb userID p disk
      else if action = ''workjp'' then callback_work h cb userID p disk
      else (h, []))"
  using assms
  by (auto simp: HandleCallback_def decodeToken_def split: list.splits option.splits)

lemma HandleCallback_home:
  "decodeToken (cb_Data cb) = Some (''homejp'', userID, p) \<Longrightarrow>
     HandleCallback h cb disk = callback_home h cb userID p disk"
  by (simp add: HandleCallback_decoded)

lemma HandleCallback_work:
  "decodeToken (cb_Data cb) = Some (''workjp'', userID, p) \<Longrightarrow>
     HandleCallback h cb disk = callback_work h cb userID p disk"
  by (simp add: HandleCallback_decoded)

lemma HandleCallback_malformed: "malformed (cb_Data cb) \<Longrightarrow> HandleCallback h cb disk = (h, [])"
  by (auto simp: HandleCallback_def malformed_def split: list.splits option.splits if_splits)

lemma prompted_pending:
  "pendingHome prompted_handler 42 = Some odenplan_locs"
  "pendingWork prompted_handler 42 = Some odenplan_locs"
  by (simp_all add: fixture_evals handler_evals)

lemma prompted_store: "userStore prompted_handler = \<lparr>us_prefs = Map.empty, us_file = ''data/userprefs.json''\<rparr>"
  by (simp add: fixture_evals handler_evals)

lemma decode_examples:
  "decodeToken ''homejp_42_1'' = Some (''homejp'', 42, 1)"
  "decodeToken ''workjp_42_2'' = Some (''workjp'', 42, 2)"
  "decodeToken ''homejp_42_3'' = Some (''homejp'', 42, 3)"
  "decodeToken ''workjp_42_-1'' = Some (''workjp'', 42, - 1)"
  "decodeToken ''homejp_43_0'' = Some (''homejp'', 43, 0)"
  by (simp_all add: handler_evals)

text \<open>
  Claim C1, as stated: after a failed preference write the pending entry of that user and
  role is gone. In the code it is still there: the handler reads the list under the read
  lock, and deletes the entry only after the write has succeeded.
\<close>

theorem failed_write_keeps_pending:
  "snd (SetHome (userStore prompted_handler) 42 (loc_ID (odenplan_locs ! 1))
          (Some ''write prefs file: no space left on device''))
     = Some ''write prefs file: no space left on device''
   \<and> pendingHome
        (fst (HandleCallback prompted_handler (click ''homejp_42_1'')
                (Some ''write prefs file: no space left on device''))) 42
       = Some odenplan_locs
   \<and> snd (HandleCallback prompted_handler (click ''homejp_42_1'')
            (Some ''write prefs file: no space left on device''))
       = [SendMessage 7 msg_save_failed]"
  by (simp add: fixture_evals handler_evals Let_def)

text \<open>
  Claim C1, amended: when the preference write fails while a click with a valid position is
  resolved, both maps of pending selections are what they were before the click (the entry
  of that user and role is still held), and the user is sent the save-failure message.
\<close>

theorem failed_write_leaves_pending:
  assumes "decodeToken (cb_Data cb) = Some (action, userID, p)" and "0 \<le> p"
  shows
    "(action = ''homejp'' \<and> pendingHome h userID = Some locs \<and> p < int (length locs)
        \<and> snd (SetHome (userStore h) userID (loc_ID (locs ! nat p)) disk) = Some err
      \<longrightarrow> pendingHome (fst (HandleCallback h cb disk)) = pendingHome h
          \<and> pendingWork (fst (HandleCallback h cb disk)) = pendingWork h
          \<and> snd (HandleCallback h cb disk) = [SendMessage (cb_ChatID cb) msg_save_failed])
     \<and> (action = ''workjp'' \<and> pendingWork h userID = Some locs \<and> p < int (length locs)
        \<and> snd (SetWork (userStore h) userID (loc_ID (locs ! nat p)) disk) = Some err
      \<longrightarrow> pendingHome (fst (HandleCallback h cb disk)) = pendingHome h
          \<and> pendingWork (fst (HandleCallback h cb disk)) = pendingWork h
          \<and> snd (HandleCallback h cb disk) = [SendMessage (cb_ChatID cb) msg_save_failed])"
proof -
  have home: "pendingHome (fst (callback_home h cb userID p disk)) = pendingHome h
      \<and> pendingWork (fst (callback_home h cb userID p disk)) = pendingWork h
      \<and> snd (callback_home h cb userID p disk) = [SendMessage (cb_ChatID cb) msg_save_failed]"
    if "pendingHome h userID = Some locs" "p < int (length locs)"
      "snd (SetHome (userStore h) userID (loc_ID (locs ! nat p)) disk) = Some err"
    using that assms(2) by (simp add: callback_home_def pending_at_def Let_def)
  have work: "pendingHome (fst (callback_work h cb userID p disk)) = pendingHome h
      \<and> pendingWork (fst (callback_work h cb userID p disk)) = pendingWork h
      \<and> snd (callback_work h cb userID p disk) = [SendMessage (cb_ChatID cb) msg_save_failed]"
    if "pendingWork h userID = Some locs" "p < int (length locs)"
      "snd (SetWork (userStore h) userID (loc_ID (locs ! nat p)) disk) = Some err"
    using that assms(2) by (simp add: callback_work_def pending_at_def Let_def)
  show ?thesis
    using assms(1) home work by (auto simp: HandleCallback_decoded)
qed

theorem failed_write_leaves_pending_witness:
  "decodeToken (cb_Data (click ''workjp_42_2'')) = Some (''workjp'', 42, 2)
   \<and> pendingWork prompted_handler 42 = Some odenplan_locs
   \<and> snd (SetWork (userStore prompted_handler) 42 (loc_ID (odenplan_locs ! nat 2)) (Some ''disk full''))
       = Some ''disk full''
   \<and> pendingHome (fst (HandleCallback prompted_handler (click ''workjp_42_2'') (Some ''disk full'')))
       = pendingHome prompted_handler
   \<and> pendingWork (fst (HandleCallback prompted_handler (click ''workjp_42_2'') (Some ''disk full'')))
       = pendingWork prompted_handler
   \<and> snd (HandleCallback prompted_handler (click ''workjp_42_2'') (Some ''disk full''))
       = [SendMessage 7 msg_save_failed]"
proof -
  have d: "decodeToken (cb_Data (click ''workjp_42_2'')) = Some (''workjp'', 42, 2)"
    by (simp add: click_def decode_examples)
  have s: "snd (SetWork (userStore prompted_handler) 42 (loc_ID (odenplan_locs ! nat 2)) (Some ''disk full''))
       = Some ''disk full''"
    by (simp add: prompted_store SetWork_def saveToFile_def)
  have l: "(2::int) < int (length odenplan_locs)"
    by (simp add: odenplan_locs_def)
  show ?thesis
    using failed_write_leaves_pending [OF d, of prompted_handler odenplan_locs "Some ''disk full''" "''disk full''"]
      d s l prompted_pending
    by (simp add: click_def)
qed

text \<open>
  Claim C2, as stated: the pending list is removed before the position is checked, so that
  after a click with a position out of bounds the entry is gone. In the code the entry is
  still there after such a click.
\<close>

theorem out_of_bounds_click_keeps_pending:
  "decodeToken (cb_Data (click ''homejp_42_3'')) = Some (''homejp'', 42, 3)
   \<and> length odenplan_locs = 3
   \<and> pendingHome (fst (HandleCallback prompted_handler (click ''homejp_42_3'') None)) 42
       = Some odenplan_locs"
  by (simp add: fixture_evals handler_evals Let_def)

text \<open>
  Claim C2, amended: a click whose token decodes to (role, user, position) only reads the
  pending list of that user and role. The entry is removed when, and only when, the
  position is within bounds and the preference write succeeded; in every other case, and
  for the other role always, the maps are unchanged.
\<close>

theorem click_pending_effect:
  assumes "decodeToken (cb_Data cb) = Some (action, userID, p)"
  shows
    "(action = ''homejp''
      \<longrightarrow> pendingWork (fst (HandleCallback h cb disk)) = pendingWork h
          \<and> pendingHome (fst (HandleCallback h cb disk)) =
              (if 0 \<le> p \<and> p < int (length (pending_at (pendingHome h) userID))
                  \<and> snd (SetHome (userStore h) userID
                            (loc_ID (pending_at (pendingHome h) userID ! nat p)) disk) = None
               then (pendingHome h)(userID := None) else pendingHome h))
     \<and> (action = ''workjp''
      \<longrightarrow> pendingHome (fst (HandleCallback h cb disk)) = pendingHome h
          \<and> pendingWork (fst (HandleCallback h cb disk)) =
              (if 0 \<le> p \<and> p < int (length (pending_at (pendingWork h) userID))
                  \<and> snd (SetWork (userStore h) userID
                            (loc_ID (pending_at (pendingWork h) userID ! nat p)) disk) = None
               then (pendingWork h)(userID := None) else pendingWork h))"
proof -
  have home: "pendingWork (fst (callback_home h cb userID p disk)) = pendingWork h
      \<and> pendingHome (fst (callback_home h cb userID p disk)) =
          (if 0 \<le> p \<and> p < int (length (pending_at (pendingHome h) userID))
              \<and> snd (SetHome (userStore h) userID
                        (loc_ID (pending_at (pendingHome h) userID ! nat p)) disk) = None
           then (pendingHome h)(userID := None) else pendingHome h)"
    by (auto simp: callback_home_def Let_def split: option.splits)
  have work: "pendingHome (fst (callback_work h cb userID p disk)) = pendingHome h
      \<and> pendingWork (fst (callback_work h cb userID p disk)) =
          (if 0 \<le> p \<and> p < int (length (pending_at (pendingWork h) userID))
              \<and> snd (SetWork (userStore h) userID
                        (loc_ID (pending_at (pendingWork h) userID ! nat p)) disk) = None
           then (pendingWork h)(userID := None) else pendingWork h)"
    by (auto simp: callback_work_def Let_def split: option.splits)
  show ?thesis
    using assms home work by (auto simp: HandleCallback_decoded)
qed

theorem click_pending_effect_witness:
  "decodeToken (cb_Data (click ''homejp_42_3'')) = Some (''homejp'', 42, 3)
   \<and> pendingHome (fst (HandleCallback prompted_handler (click ''homejp_42_3'') None))
       = pendingHome prompted_handler
   \<and> pendingWork (fst (HandleCallback prompted_handler (click ''homejp_42_3'') None))
       = pendingWork prompted_handler
   \<and> decodeToken (cb_Data (click ''homejp_42_1'')) = Some (''homejp'', 42, 1)
   \<and> pendingHome (fst (HandleCallback prompted_handler (click ''homejp_42_1'') None)) 42 = None
   \<and> pendingWork (fst (HandleCallback prompted_handler (click ''homejp_42_1'') None)) 42
       = Some odenplan_locs"
proof -
  have d3: "decodeToken (cb_Data (click ''homejp_42_3'')) = Some (''homejp'', 42, 3)"
    by (simp add: click_def decode_examples)
  have d1: "decodeToken (cb_Data (click ''homejp_42_1'')) = Some (''homejp'', 42, 1)"
    by (simp add: click_def decode_examples)
  have at: "pending_at (pendingHome prompted_handler) 42 = odenplan_locs"
    by (simp add: pending_at_def prompted_pending)
  have len: "length odenplan_locs = 3"
    by (simp add: odenplan_locs_def)
  have ok: "snd (SetHome (userStore prompted_handler) 42 (loc_ID (odenplan_locs ! nat 1)) None) = None"
    by (simp add: SetHome_def saveToFile_def)
  have out: "pendingHome (fst (HandleCallback prompted_handler (click ''homejp_42_3'') None))
       = pendingHome prompted_handler
     \<and> pendingWork (fst (HandleCallback prompted_handler (click ''homejp_42_3'') None))
       = pendingWork prompted_handler"
    using click_pending_effect [OF d3, of prompted_handler None] by (simp add: at len)
  have inside: "pendingHome (fst (HandleCallback prompted_handler (click ''homejp_42_1'') None)) 42 = None
     \<and> pendingWork (fst (HandleCallback prompted_handler (click ''homejp_42_1'') None)) 42
       = Some odenplan_locs"
    using click_pending_effect [OF d1, of prompted_handler None] ok
    by (simp add: at len prompted_pending)
  show ?thesis
    using d3 d1 out inside by simp
qed

text \<open>
  Claim C3, as stated: every invalid click, a malformed token included, is answered with a
  message to the user. For a malformed token the code sends nothing: it writes a line to
  the log and returns.
\<close>

theorem malformed_token_sends_nothing:
  "malformed (cb_Data (click ''homejp_abc_1''))
   \<and> HandleCallback prompted_handler (click ''homejp_abc_1'') None = (prompted_handler, [])
   \<and> malformed (cb_Data (click ''homejp_42''))
   \<and> HandleCallback prompted_handler (click ''homejp_42'') None = (prompted_handler, [])"
  by (simp add: click_def handler_evals)

text \<open>
  Claim C3, amended: a click with a position out of bounds, or for a user and role with no
  pending entry, is answered with the message that the location was not found in the
  pending selections, and the handler's state (the preference store included) is unchanged;
  a click with a malformed token is answered with nothing at all, and the state is
  unchanged as well.
\<close>

theorem invalid_click_outcomes:
  "(malformed (cb_Data cb) \<longrightarrow> HandleCallback h cb disk = (h, []))
   \<and> (decodeToken (cb_Data cb) = Some (''homejp'', userID, p)
        \<and> (p < 0 \<or> int (length (pending_at (pendingHome h) userID)) \<le> p)
      \<longrightarrow> HandleCallback h cb disk = (h, [SendMessage (cb_ChatID cb) msg_not_found]))
   \<and> (decodeToken (cb_Data cb) = Some (''workjp'', userID, p)
        \<and> (p < 0 \<or> int (length (pending_at (pendingWork h) userID)) \<le> p)
      \<longrightarrow> HandleCallback h cb disk = (h, [SendMessage (cb_ChatID cb) msg_not_found]))
   \<and> (decodeToken (cb_Data cb) = Some (''homejp'', userID, p) \<and> pendingHome h userID = None
      \<longrightarrow> HandleCallback h cb disk = (h, [SendMessage (cb_ChatID cb) msg_not_found]))
   \<and> (decodeToken (cb_Data cb) = Some (''workjp'', userID, p) \<and> pendingWork h userID = None
      \<longrightarrow> HandleCallback h cb disk = (h, [SendMessage (cb_ChatID cb) msg_not_found]))"
proof -
  have home: "callback_home h cb userID p disk = (h, [SendMessage (cb_ChatID cb) msg_not_found])"
    if "p < 0 \<or> int (length (pending_at (pendingHome h) userID)) \<le> p"
    using that by (auto simp: callback_home_def)
  have work: "callback_work h cb userID p disk = (h, [SendMessage (cb_ChatID cb) msg_not_found])"
    if "p < 0 \<or> int (length (pending_at (pendingWork h) userID)) \<le> p"
    using that by (auto simp: callback_work_def)
  have home_absent: "p < 0 \<or> int (length (pending_at (pendingHome h) userID)) \<le> p"
    if "pendingHome h userID = None"
    using that by (simp add: pending_at_def) linarith
  have work_absent: "p < 0 \<or> int (length (pending_at (pendingWork h) userID)) \<le> p"
    if "pendingWork h userID = None"
    using that by (simp add: pending_at_def) linarith
  show ?thesis
    using home work home_absent work_absent
    by (auto simp: HandleCallback_malformed HandleCallback_home HandleCallback_work)
qed

theorem invalid_click_outcomes_witness:
  "malformed (cb_Data (click ''workjp_42''))
   \<and> HandleCallback prompted_handler (click ''workjp_42'') None = (prompted_handler, [])
   \<and> decodeToken (cb_Data (click ''workjp_42_-1'')) = Some (''workjp'', 42, - 1)
   \<and> HandleCallback prompted_handler (click ''workjp_42_-1'') None
       = (prompted_handler, [SendMessage 7 msg_not_found])
   \<and> decodeToken (cb_Data (click ''homejp_43_0'')) = Some (''homejp'', 43, 0)
   \<and> pendingHome prompted_handler 43 = None
   \<and> HandleCallback prompted_handler (click ''homejp_43_0'') None
       = (prompted_handler, [SendMessage 7 msg_not_found])"
proof -
  have m: "malformed (cb_Data (click ''workjp_42''))"
    by (simp add: click_def handler_evals)
  have dw: "decodeToken (cb_Data (click ''workjp_42_-1'')) = Some (''workjp'', 42, - 1)"
    by (simp add: click_def decode_examples)
  have dh: "decodeToken (cb_Data (click ''homejp_43_0'')) = Some (''homejp'', 43, 0)"
    by (simp add: click_def decode_examples)
  have none: "pendingHome prompted_handler 43 = None"
    by (simp add: fixture_evals handler_evals)
  have a: "HandleCallback prompted_handler (click ''workjp_42'') None = (prompted_handler, [])"
    using invalid_click_outcomes [of "click ''workjp_42''" prompted_handler None] m by simp
  have b: "HandleCallback prompted_handler (click ''workjp_42_-1'') None
       = (prompted_handler, [SendMessage 7 msg_not_found])"
    using invalid_click_outcomes [of "click ''workjp_42_-1''" prompted_handler None 42 "- 1"] dw
    by (simp add: click_def)
  have c: "HandleCallback prompted_handler (click ''homejp_43_0'') None
       = (prompted_handler, [SendMessage 7 msg_not_found])"
    using invalid_click_outcomes [of "click ''homejp_43_0''" prompted_handler None 43 0] dh none
    by (simp add: click_def)
  show ?thesis
    using m dw dh none a b c by simp
qed

text \<open>
  Issuing a prompt: a search with two or more results stores the list for the user and
  sends one button per result, whose callback data carries the role, the user and the
  position of the result.
\<close>

lemma prompt_issued:
  assumes "query \<noteq> []" and "StopFinder (jpClient h) query 5 response = Inr locs"
    and "2 \<le> length locs"
  shows "pendingHome (fst (handleSetHome h chatID userID query response disk)) userID = Some locs"
    and "snd (handleSetHome h chatID userID query response disk) =
           [SendPrompt chatID (msg_multiple query) (location_buttons ''homejp'' userID locs)]"
    and "pendingWork (fst (handleSetWork h chatID userID query response disk)) userID = Some locs"
    and "snd (handleSetWork h chatID userID query response disk) =
           [SendPrompt chatID (msg_multiple query) (location_buttons ''workjp'' userID locs)]"
  using assms by (auto simp: handleSetHome_def handleSetWork_def)

lemma button_data:
  "i < length locs \<Longrightarrow>
     snd (location_buttons role userID locs ! i) = role @ ''_'' @ fmt_d userID @ ''_'' @ fmt_d (int i)"
  by (simp add: location_buttons_def location_button_def nth_enumerate_eq)


text \<open>
  The callback data of an issued button decodes to the role, the user and the position it
  was built from: printing an integer of the 64-bit range with \<open>%d\<close> and parsing it back
  gives the integer, and the fields contain no underscore.
\<close>

lemma less_ten_cases:
  "k < 10 \<Longrightarrow> k = 0 \<or> k = 1 \<or> k = 2 \<or> k = 3 \<or> k = 4 \<or> k = 5 \<or> k = 6 \<or> k = 7 \<or> k = 8 \<or> k = (9::nat)"
  by arith

lemma digit_char:
  assumes "k < 10"
  shows "is_digit (''0123456789'' ! k)" and "digit_val (''0123456789'' ! k) = k"
    and "''0123456789'' ! k \<noteq> CHR ''_''" and "''0123456789'' ! k \<noteq> CHR ''-''"
    and "''0123456789'' ! k \<noteq> CHR ''+''"
  using less_ten_cases [OF assms] by (auto simp: is_digit_def digit_val_def)

lemma decimal_digits:
  "list_all is_digit (decimal n) \<and> decimal n \<noteq> []
   \<and> foldl (\<lambda>n c. n * 10 + digit_val c) 0 (decimal n) = n
   \<and> CHR ''_'' \<notin> set (decimal n) \<and> hd (decimal n) \<noteq> CHR ''-'' \<and> hd (decimal n) \<noteq> CHR ''+''"
proof (induction n rule: decimal.induct)
  case (1 n)
  show ?case
  proof (cases "n < 10")
    case True
    then show ?thesis
      using digit_char [OF True] by (subst (1 2 3 4 5 6) decimal.simps) simp
  next
    case False
    have m: "n mod 10 < 10"
      by simp
    from False 1 have ih: "list_all is_digit (decimal (n div 10))" "decimal (n div 10) \<noteq> []"
      "foldl (\<lambda>n c. n * 10 + digit_val c) 0 (decimal (n div 10)) = n div 10"
      "CHR ''_'' \<notin> set (decimal (n div 10))" "hd (decimal (n div 10)) \<noteq> CHR ''-''"
      "hd (decimal (n div 10)) \<noteq> CHR ''+''"
      by simp_all
    have unfold: "decimal n = decimal (n div 10) @ [''0123456789'' ! (n mod 10)]"
      using False by (subst decimal.simps) simp
    show ?thesis
      unfolding unfold using ih digit_char [OF m] by (simp add: hd_append)
  qed
qed

lemma ParseUint_decimal: "ParseUint (decimal n) = Some n"
  using decimal_digits [of n] by (simp add: ParseUint_def)

lemma ParseInt_fmt_d:
  assumes "- (2 ^ 63) \<le> i" and "i < 2 ^ 63"
  shows "ParseInt (fmt_d i) = Some i"
proof (cases "i < 0")
  case True
  then show ?thesis
    using assms by (simp add: fmt_d_def ParseInt_def ParseUint_decimal)
next
  case False
  obtain c cs where d: "decimal (nat i) = c # cs"
    using decimal_digits [of "nat i"] by (cases "decimal (nat i)") auto
  have "c \<noteq> CHR ''-''" "c \<noteq> CHR ''+''"
    using decimal_digits [of "nat i"] d by auto
  moreover have "ParseUint (c # cs) = Some (nat i)"
    using ParseUint_decimal [of "nat i"] d by simp
  ultimately show ?thesis
    using False assms d by (simp add: fmt_d_def ParseInt_def)
qed

lemma no_underscore_fmt_d: "CHR ''_'' \<notin> set (fmt_d i)"
  using decimal_digits by (simp add: fmt_d_def)

lemma Split_whole: "sep \<notin> set s \<Longrightarrow> Split s sep = [s]"
  by (induction s) auto

lemma Split_field: "sep \<notin> set s \<Longrightarrow> Split (s @ sep # rest) sep = s # Split rest sep"
  by (induction s) auto

lemma issued_token_decodes:
  assumes "CHR ''_'' \<notin> set role" and "- (2 ^ 63) \<le> userID" and "userID < 2 ^ 63"
    and "int i < 2 ^ 63"
  shows "decodeToken (role @ ''_'' @ fmt_d userID @ ''_'' @ fmt_d (int i)) = Some (role, userID, int i)"
proof -
  have "Split (role @ ''_'' @ fmt_d userID @ ''_'' @ fmt_d (int i)) CHR ''_''
      = [role, fmt_d userID, fmt_d (int i)]"
    using assms(1) by (simp add: Split_field Split_whole no_underscore_fmt_d)
  moreover have "ParseInt (fmt_d userID) = Some userID"
    using assms by (simp add: ParseInt_fmt_d)
  moreover have "ParseInt (fmt_d (int i)) = Some (int i)"
    using assms by (simp add: ParseInt_fmt_d)
  ultimately show ?thesis
    by (simp add: decodeToken_def Atoi_def)
qed

text \<open>
  A prompt and the click on one of its buttons, end to end: after a search with two or
  more results for a user (whose identifier is in the 64-bit range), the data of the
  button at position \<open>i\<close> decodes to that position, and the pending list is the list of
  results.
\<close>

lemma issued_button_decodes:
  assumes "query \<noteq> []" and "StopFinder (jpClient h) query 5 response = Inr locs"
    and "2 \<le> length locs" and "i < length locs"
    and "- (2 ^ 63) \<le> userID" and "userID < 2 ^ 63"
  shows "\<exists>buttons text.
           snd (handleSetHome h chatID userID query response disk) = [SendPrompt chatID text buttons]
           \<and> length buttons = length locs
           \<and> decodeToken (snd (buttons ! i)) = Some (''homejp'', userID, int i)
           \<and> pendingHome (fst (handleSetHome h chatID userID query response disk)) userID = Some locs"
proof -
  have five: "length locs \<le> 5"
    using assms(2) by (auto simp: StopFinder_def dryRunStopFinder_def limit_locs_def
        split: if_splits sum.splits)
  then have small: "int i < 2 ^ 63"
    using assms(4) by simp
  have data: "snd (location_buttons ''homejp'' userID locs ! i)
      = ''homejp'' @ ''_'' @ fmt_d userID @ ''_'' @ fmt_d (int i)"
    using assms(4) by (rule button_data)
  have "decodeToken (''homejp'' @ ''_'' @ fmt_d userID @ ''_'' @ fmt_d (int i))
      = Some (''homejp'', userID, int i)"
    using assms(5,6) small by (intro issued_token_decodes) simp_all
  then have "decodeToken (snd (location_buttons ''homejp'' userID locs ! i))
      = Some (''homejp'', userID, int i)"
    by (simp only: data)
  moreover have "length (location_buttons ''homejp'' userID locs) = length locs"
    by (simp add: location_buttons_def)
  ultimately show ?thesis
    using prompt_issued(1,2) [OF assms(1,2,3)] by auto
qed
text \<open>
  What a setter leaves in the store: the location is the user's home (or work) location
  from then on, whether or not the file could be saved.
\<close>

lemma SetHome_read: "HomeLocation (GetPrefs (fst (SetHome s userID location disk)) userID) = location"
  by (simp add: SetHome_def GetPrefs_def Let_def)

lemma SetWork_read: "WorkLocation (GetPrefs (fst (SetWork s userID location disk)) userID) = location"
  by (simp add: SetWork_def GetPrefs_def Let_def)

text \<open>
  Claim C4, as stated: every click with a position within the bounds of the pending list
  ends in the confirmation. When the preference write fails the code sends the
  save-failure message instead and edits nothing: the click on the second of three
  candidates, with a disk that cannot be written.
\<close>

theorem in_bounds_click_failed_write:
  "decodeToken (cb_Data (click ''homejp_42_1'')) = Some (''homejp'', 42, 1)
   \<and> pendingHome prompted_handler 42 = Some odenplan_locs
   \<and> length odenplan_locs = 3
   \<and> snd (HandleCallback prompted_handler (click ''homejp_42_1'')
            (Some ''write prefs file: read-only file system''))
       = [SendMessage 7 msg_save_failed]"
  by (simp add: fixture_evals handler_evals Let_def)

text \<open>
  Claim C4, amended. For a click whose token decodes to (role, user, position) while the
  pending list of that user and role is \<open>locs\<close>: with \<open>0 \<le> p < length locs\<close> the handler
  calls the setter of that role (\<open>SetHome\<close> for home, \<open>SetWork\<close> for work) with the
  identifier of the candidate at position \<open>p\<close>, which is the user's location of that role in
  the store afterwards; when the store reports the write as done the prompt is edited into
  the confirmation that names this candidate, and when it reports an error the user is sent
  the save-failure message and nothing is edited. With \<open>p\<close> out of these bounds the
  preference store is left as it was and the answer is the not-found message.
\<close>

theorem click_resolves_position:
  assumes "decodeToken (cb_Data cb) = Some (action, userID, p)"
  shows
    "(action = ''homejp'' \<and> pendingHome h userID = Some locs \<longrightarrow>
        (if 0 \<le> p \<and> p < int (length locs)
         then userStore (fst (HandleCallback h cb disk))
                = fst (SetHome (userStore h) userID (loc_ID (locs ! nat p)) disk)
              \<and> HomeLocation (GetPrefs (userStore (fst (HandleCallback h cb disk))) userID)
                  = loc_ID (locs ! nat p)
              \<and> snd (HandleCallback h cb disk)
                  = (if snd (SetHome (userStore h) userID (loc_ID (locs ! nat p)) disk) = None
                     then [EditMessageText (cb_ChatID cb) (cb_MessageID cb)
                             (check_mark @ '' Home set to: '' @ loc_Name (locs ! nat p))]
                     else [SendMessage (cb_ChatID cb) msg_save_failed])
         else userStore (fst (HandleCallback h cb disk)) = userStore h
              \<and> snd (HandleCallback h cb disk) = [SendMessage (cb_ChatID cb) msg_not_found]))
     \<and> (action = ''workjp'' \<and> pendingWork h userID = Some locs \<longrightarrow>
        (if 0 \<le> p \<and> p < int (length locs)
         then userStore (fst (HandleCallback h cb disk))
                = fst (SetWork (userStore h) userID (loc_ID (locs ! nat p)) disk)
              \<and> WorkLocation (GetPrefs (userStore (fst (HandleCallback h cb disk))) userID)
                  = loc_ID (locs ! nat p)
              \<and> snd (HandleCallback h cb disk)
                  = (if snd (SetWork (userStore h) userID (loc_ID (locs ! nat p)) disk) = None
                     then [EditMessageText (cb_ChatID cb) (cb_MessageID cb)
                             (check_mark @ '' Work set to: '' @ loc_Name (locs ! nat p))]
                     else [SendMessage (cb_ChatID cb) msg_save_failed])
         else userStore (fst (HandleCallback h cb disk)) = userStore h
              \<and> snd (HandleCallback h cb disk) = [SendMessage (cb_ChatID cb) msg_not_found]))"
proof -
  have home:
    "(if 0 \<le> p \<and> p < int (length locs)
      then userStore (fst (callback_home h cb userID p disk))
             = fst (SetHome (userStore h) userID (loc_ID (locs ! nat p)) disk)
           \<and> HomeLocation (GetPrefs (userStore (fst (callback_home h cb userID p disk))) userID)
               = loc_ID (locs ! nat p)
           \<and> snd (callback_home h cb userID p disk)
               = (if snd (SetHome (userStore h) userID (loc_ID (locs ! nat p)) disk) = None
                  then [EditMessageText (cb_ChatID cb) (cb_MessageID cb)
                          (check_mark @ '' Home set to: '' @ loc_Name (locs ! nat p))]
                  else [SendMessage (cb_ChatID cb) msg_save_failed])
      else userStore (fst (callback_home h cb userID p disk)) = userStore h
           \<and> snd (callback_home h cb userID p disk) = [SendMessage (cb_ChatID cb) msg_not_found])"
    if "pendingHome h userID = Some locs"
    using that
    by (auto simp: callback_home_def pending_at_def Let_def msg_home_set_def SetHome_read
        split: option.splits)
  have work:
    "(if 0 \<le> p \<and> p < int (length locs)
      then userStore (fst (callback_work h cb userID p disk))
             = fst (SetWork (userStore h) userID (loc_ID (locs ! nat p)) disk)
           \<and> WorkLocation (GetPrefs (userStore (fst (callback_work h cb userID p disk))) userID)
               = loc_ID (locs ! nat p)
           \<and> snd (callback_work h cb userID p disk)
               = (if snd (SetWork (userStore h) userID (loc_ID (locs ! nat p)) disk) = None
                  then [EditMessageText (cb_ChatID cb) (cb_MessageID cb)
                          (check_mark @ '' Work set to: '' @ loc_Name (locs ! nat p))]
                  else [SendMessage (cb_ChatID cb) msg_save_failed])
      else userStore (fst (callback_work h cb userID p disk)) = userStore h
           \<and> snd (callback_work h cb userID p disk) = [SendMessage (cb_ChatID cb) msg_not_found])"
    if "pendingWork h userID = Some locs"
    using that
    by (auto simp: callback_work_def pending_at_def Let_def msg_work_set_def SetWork_read
        split: option.splits)
  show ?thesis
    using assms home work by (auto simp: HandleCallback_decoded SetHome_read SetWork_read)
qed

theorem click_resolves_position_witness:
  "snd (location_buttons ''homejp'' 42 odenplan_locs ! 1) = ''homejp_42_1''
   \<and> decodeToken (cb_Data (click ''homejp_42_1'')) = Some (''homejp'', 42, 1)
   \<and> pendingHome prompted_handler 42 = Some odenplan_locs
   \<and> loc_Name (odenplan_locs ! 1) = ''Odenplan Norra''
   \<and> GetPrefs (userStore (fst (HandleCallback prompted_handler (click ''homejp_42_1'') None))) 42
       = \<lparr>HomeLocation = ''9091001000009118'', WorkLocation = [], RoutePriority = []\<rparr>
   \<and> snd (HandleCallback prompted_handler (click ''homejp_42_1'') None)
       = [EditMessageText 7 99 (check_mark @ '' Home set to: Odenplan Norra'')]
   \<and> decodeToken (cb_Data (click ''workjp_42_0'')) = Some (''workjp'', 42, 0)
   \<and> pendingWork prompted_handler 42 = Some odenplan_locs
   \<and> WorkLocation
        (GetPrefs (userStore (fst (HandleCallback prompted_handler (click ''workjp_42_0'') None))) 42)
       = ''9091001000009117''
   \<and> snd (HandleCallback prompted_handler (click ''workjp_42_0'') None)
       = [EditMessageText 7 99 (check_mark @ '' Work set to: Odenplan'')]
   \<and> WorkLocation
        (GetPrefs (userStore (fst (HandleCallback prompted_handler (click ''workjp_42_0'')
                                     (Some ''disk full'')))) 42)
       = ''9091001000009117''
   \<and> snd (HandleCallback prompted_handler (click ''workjp_42_0'') (Some ''disk full''))
       = [SendMessage 7 msg_save_failed]
   \<and> decodeToken (cb_Data (click ''workjp_42_3'')) = Some (''workjp'', 42, 3)
   \<and> userStore (fst (HandleCallback prompted_handler (click ''workjp_42_3'') None))
       = userStore prompted_handler
   \<and> snd (HandleCallback prompted_handler (click ''workjp_42_3'') None)
       = [SendMessage 7 msg_not_found]"
proof -
  have tok: "snd (location_buttons ''homejp'' 42 odenplan_locs ! 1) = ''homejp_42_1''"
    by (simp add: location_buttons_def location_button_def odenplan_locs_def enumerate_eq_zip
        upt_rec fmt_d_def decimal.simps)
  have d1: "decodeToken (cb_Data (click ''homejp_42_1'')) = Some (''homejp'', 42, 1)"
    by (simp add: click_def decode_examples)
  have d0: "decodeToken (cb_Data (click ''workjp_42_0'')) = Some (''workjp'', 42, 0)"
    by (simp add: click_def handler_evals)
  have d3: "decodeToken (cb_Data (click ''workjp_42_3'')) = Some (''workjp'', 42, 3)"
    by (simp add: click_def handler_evals)
  have locs: "loc_Name (odenplan_locs ! 1) = ''Odenplan Norra''"
    "loc_ID (odenplan_locs ! 1) = ''9091001000009118''"
    "loc_Name (odenplan_locs ! 0) = ''Odenplan''"
    "loc_ID (odenplan_locs ! 0) = ''9091001000009117''"
    by (simp_all add: odenplan_locs_def dry_location_def)
  have len: "length odenplan_locs = 3"
    by (simp add: odenplan_locs_def)
  have home_ok:
    "GetPrefs (userStore (fst (HandleCallback prompted_handler (click ''homejp_42_1'') None))) 42
       = \<lparr>HomeLocation = ''9091001000009118'', WorkLocation = [], RoutePriority = []\<rparr>
     \<and> snd (HandleCallback prompted_handler (click ''homejp_42_1'') None)
       = [EditMessageText 7 99 (check_mark @ '' Home set to: Odenplan Norra'')]"
    using click_resolves_position [OF d1, of prompted_handler odenplan_locs None] prompted_pending locs
    by (simp add: len click_def prompted_store SetHome_def saveToFile_def GetPrefs_def
        no_preferences_def)
  have work_ok:
    "WorkLocation
        (GetPrefs (userStore (fst (HandleCallback prompted_handler (click ''workjp_42_0'') None))) 42)
       = ''9091001000009117''
     \<and> snd (HandleCallback prompted_handler (click ''workjp_42_0'') None)
       = [EditMessageText 7 99 (check_mark @ '' Work set to: Odenplan'')]"
    using click_resolves_position [OF d0, of prompted_handler odenplan_locs None] prompted_pending locs
    by (simp add: len click_def prompted_store SetWork_def saveToFile_def GetPrefs_def
        no_preferences_def)
  have work_failed:
    "WorkLocation
        (GetPrefs (userStore (fst (HandleCallback prompted_handler (click ''workjp_42_0'')
                                     (Some ''disk full'')))) 42)
       = ''9091001000009117''
     \<and> snd (HandleCallback prompted_handler (click ''workjp_42_0'') (Some ''disk full''))
       = [SendMessage 7 msg_save_failed]"
    using click_resolves_position [OF d0, of prompted_handler odenplan_locs "Some ''disk full''"]
      prompted_pending locs
    by (simp add: len click_def prompted_store SetWork_def saveToFile_def GetPrefs_def
        no_preferences_def)
  have outside:
    "userStore (fst (HandleCallback prompted_handler (click ''workjp_42_3'') None))
       = userStore prompted_handler
     \<and> snd (HandleCallback prompted_handler (click ''workjp_42_3'') None)
       = [SendMessage 7 msg_not_found]"
    using click_resolves_position [OF d3, of prompted_handler odenplan_locs None] prompted_pending
    by (simp add: len click_def)
  show ?thesis
    using tok d1 d0 d3 locs home_ok work_ok work_failed outside prompted_pending by simp
qed

text \<open>
  Claim C5, as stated: every query with exactly one candidate ends in the report of
  success. When the preference write fails the code sends the save-failure message: one
  candidate, and a disk that cannot be written.
\<close>

theorem single_candidate_failed_write:
  "StopFinder (jpClient prompted_handler) ''odenplan norra'' 5 (Inr [odenplan_locs ! 1])
     = Inr [odenplan_locs ! 1]
   \<and> snd (handleSetHome prompted_handler 7 42 ''odenplan norra'' (Inr [odenplan_locs ! 1])
            (Some ''write prefs file: read-only file system''))
       = [SendMessage 7 msg_save_failed_later]"
  by (simp add: fixture_evals handler_evals Let_def)

text \<open>
  Claim C5, amended. When the search for a query returns exactly one candidate, the handler
  calls the setter of the role with the candidate's identifier at once, which is the user's
  location of that role in the store afterwards; it sends one plain message, the
  confirmation naming the candidate when the store reports the write as done and the
  save-failure message when it reports an error; it sends no prompt, and leaves both maps of
  pending selections as they were.
\<close>

theorem single_candidate_short_circuit:
  assumes "query \<noteq> []" and "StopFinder (jpClient h) query 5 response = Inr [loc]"
  shows
    "pendingHome (fst (handleSetHome h chatID userID query response disk)) = pendingHome h
     \<and> pendingWork (fst (handleSetHome h chatID userID query response disk)) = pendingWork h
     \<and> userStore (fst (handleSetHome h chatID userID query response disk))
         = fst (SetHome (userStore h) userID (loc_ID loc) disk)
     \<and> HomeLocation (GetPrefs (userStore (fst (handleSetHome h chatID userID query response disk)))
          userID) = loc_ID loc
     \<and> snd (handleSetHome h chatID userID query response disk)
         = [SendMessage chatID
              (if snd (SetHome (userStore h) userID (loc_ID loc) disk) = None
               then check_mark @ '' Home set to: '' @ loc_Name loc else msg_save_failed_later)]
     \<and> pendingHome (fst (handleSetWork h chatID userID query response disk)) = pendingHome h
     \<and> pendingWork (fst (handleSetWork h chatID userID query response disk)) = pendingWork h
     \<and> userStore (fst (handleSetWork h chatID userID query response disk))
         = fst (SetWork (userStore h) userID (loc_ID loc) disk)
     \<and> WorkLocation (GetPrefs (userStore (fst (handleSetWork h chatID userID query response disk)))
          userID) = loc_ID loc
     \<and> snd (handleSetWork h chatID userID query response disk)
         = [SendMessage chatID
              (if snd (SetWork (userStore h) userID (loc_ID loc) disk) = None
               then check_mark @ '' Work set to: '' @ loc_Name loc else msg_save_failed_later)]"
proof -
  have home: "handleSetHome h chatID userID query response disk =
      (h\<lparr>userStore := fst (SetHome (userStore h) userID (loc_ID loc) disk)\<rparr>,
       [SendMessage chatID
          (if snd (SetHome (userStore h) userID (loc_ID loc) disk) = None
           then msg_home_set (loc_Name loc) else msg_save_failed_later)])"
    using assms by (auto simp: handleSetHome_def Let_def split: option.splits)
  have work: "handleSetWork h chatID userID query response disk =
      (h\<lparr>userStore := fst (SetWork (userStore h) userID (loc_ID loc) disk)\<rparr>,
       [SendMessage chatID
          (if snd (SetWork (userStore h) userID (loc_ID loc) disk) = None
           then msg_work_set (loc_Name loc) else msg_save_failed_later)])"
    using assms by (auto simp: handleSetWork_def Let_def split: option.splits)
  show ?thesis
    unfolding home work by (simp add: msg_home_set_def msg_work_set_def SetHome_read SetWork_read)
qed

theorem single_candidate_short_circuit_witness:
  "StopFinder (jpClient prompted_handler) ''odenplan norra'' 5 (Inr [odenplan_locs ! 1])
     = Inr [odenplan_locs ! 1]
   \<and> pendingHome (fst (handleSetHome prompted_handler 7 42 ''odenplan norra''
                         (Inr [odenplan_locs ! 1]) None))
       = pendingHome prompted_handler
   \<and> pendingWork (fst (handleSetHome prompted_handler 7 42 ''odenplan norra''
                         (Inr [odenplan_locs ! 1]) None))
       = pendingWork prompted_handler
   \<and> GetPrefs (userStore (fst (handleSetHome prompted_handler 7 42 ''odenplan norra''
                                 (Inr [odenplan_locs ! 1]) None))) 42
       = \<lparr>HomeLocation = ''9091001000009118'', WorkLocation = [], RoutePriority = []\<rparr>
   \<and> snd (handleSetHome prompted_handler 7 42 ''odenplan norra'' (Inr [odenplan_locs ! 1]) None)
       = [SendMessage 7 (check_mark @ '' Home set to: Odenplan Norra'')]
   \<and> pendingHome (fst (handleSetWork prompted_handler 7 42 ''odenplan norra''
                         (Inr [odenplan_locs ! 1]) None))
       = pendingHome prompted_handler
   \<and> pendingWork (fst (handleSetWork prompted_handler 7 42 ''odenplan norra''
                         (Inr [odenplan_locs ! 1]) None))
       = pendingWork prompted_handler
   \<and> GetPrefs (userStore (fst (handleSetWork prompted_handler 7 42 ''odenplan norra''
                                 (Inr [odenplan_locs ! 1]) None))) 42
       = \<lparr>HomeLocation = [], WorkLocation = ''9091001000009118'', RoutePriority = []\<rparr>
   \<and> snd (handleSetWork prompted_handler 7 42 ''odenplan norra'' (Inr [odenplan_locs ! 1]) None)
       = [SendMessage 7 (check_mark @ '' Work set to: Odenplan Norra'')]
   \<and> WorkLocation (GetPrefs (userStore (fst (handleSetWork prompted_handler 7 42 ''odenplan norra''
                                 (Inr [odenplan_locs ! 1]) (Some ''disk full'')))) 42)
       = ''9091001000009118''
   \<and> snd (handleSetWork prompted_handler 7 42 ''odenplan norra'' (Inr [odenplan_locs ! 1])
            (Some ''disk full''))
       = [SendMessage 7 msg_save_failed_later]"
proof -
  have q: "''odenplan norra'' \<noteq> []"
    by simp
  have sf: "StopFinder (jpClient prompted_handler) ''odenplan norra'' 5 (Inr [odenplan_locs ! 1])
     = Inr [odenplan_locs ! 1]"
    by (simp add: fixture_evals handler_evals)
  have loc: "loc_ID (odenplan_locs ! 1) = ''9091001000009118''"
    "loc_Name (odenplan_locs ! 1) = ''Odenplan Norra''"
    by (simp_all add: odenplan_locs_def dry_location_def)
  show ?thesis
    using single_candidate_short_circuit [OF q sf, of 7 42 None]
      single_candidate_short_circuit [OF q sf, of 7 42 "Some ''disk full''"] sf loc
    by (simp add: prompted_store SetHome_def SetWork_def saveToFile_def GetPrefs_def
        no_preferences_def)
qed

section \<open>The legacy handler behaves alike\<close>

text \<open>
  The same three facts for the handler of \<open>internal/bot/handler.go\<close>: one match is saved
  at once with no prompt and no change to the pending maps; a token that cannot be read is
  answered with nothing; and a failed write leaves the pending maps as they were.
\<close>

lemma legacy_single_match:
  assumes "query \<noteq> []" and "load_sites h fetched = Inr h1"
    and "FuzzyMatch L query (lg_sites h1) 3 = [site]"
  shows "lg_pendingHome (fst (legacy_handleSetHome L h chatID userID query fetched disk)) = lg_pendingHome h"
    and "lg_pendingWork (fst (legacy_handleSetHome L h chatID userID query fetched disk)) = lg_pendingWork h"
    and "lg_userStore (fst (legacy_handleSetHome L h chatID userID query fetched disk))
           = fst (SetHome (lg_userStore h) userID (fmt_d (site_SiteID site)) disk)"
    and "snd (legacy_handleSetHome L h chatID userID query fetched disk)
           = [SendMessage chatID
                (if snd (SetHome (lg_userStore h) userID (fmt_d (site_SiteID site)) disk) = None
                 then msg_home_set (site_Name site) else msg_save_failed_later)]"
proof -
  have same: "lg_pendingHome h1 = lg_pendingHome h" "lg_pendingWork h1 = lg_pendingWork h"
    "lg_userStore h1 = lg_userStore h"
    using assms(2) by (auto simp: load_sites_def split: if_splits sum.splits)
  show "lg_pendingHome (fst (legacy_handleSetHome L h chatID userID query fetched disk)) = lg_pendingHome h"
    and "lg_pendingWork (fst (legacy_handleSetHome L h chatID userID query fetched disk)) = lg_pendingWork h"
    and "lg_userStore (fst (legacy_handleSetHome L h chatID userID query fetched disk))
           = fst (SetHome (lg_userStore h) userID (fmt_d (site_SiteID site)) disk)"
    and "snd (legacy_handleSetHome L h chatID userID query fetched disk)
           = [SendMessage chatID
                (if snd (SetHome (lg_userStore h) userID (fmt_d (site_SiteID site)) disk) = None
                 then msg_home_set (site_Name site) else msg_save_failed_later)]"
    using assms same by (auto simp: legacy_handleSetHome_def Let_def split: option.splits)
qed

lemma legacy_unreadable_token:
  "decodeToken (cb_Data cb) = None \<Longrightarrow> legacy_HandleCallback h cb disk = (h, [])"
  by (auto simp: legacy_HandleCallback_def decodeToken_def split: list.splits option.splits)

lemma legacy_failed_write:
  assumes "decodeToken (cb_Data cb) = Some (''home'', userID, siteID)"
    and "pending_site_name (lg_pendingHome h) userID siteID \<noteq> []"
    and "snd (SetHome (lg_userStore h) userID (fmt_d siteID) disk) = Some err"
  shows "lg_pendingHome (fst (legacy_HandleCallback h cb disk)) = lg_pendingHome h"
    and "lg_pendingWork (fst (legacy_HandleCallback h cb disk)) = lg_pendingWork h"
    and "snd (legacy_HandleCallback h cb disk) = [SendMessage (cb_ChatID cb) msg_save_failed]"
  using assms
  by (auto simp: legacy_HandleCallback_def legacy_callback_home_def decodeToken_def Let_def
      split: list.splits option.splits)

lemma legacy_unknown_site:
  assumes "decodeToken (cb_Data cb) = Some (''home'', userID, siteID)"
    and "pending_site_name (lg_pendingHome h) userID siteID = []"
  shows "legacy_HandleCallback h cb disk = (h, [SendMessage (cb_ChatID cb) msg_site_not_found])"
  using assms
  by (auto simp: legacy_HandleCallback_def legacy_callback_home_def decodeToken_def Let_def
      split: list.splits option.splits)

end
